theory Spec2Isabelle
  imports Complex_Main
begin

section \<open>Python values and errors\<close>

text \<open>
  The add-on is Python. Its floating-point numbers are modelled by the reals, so every
  statement below is about exact arithmetic; rounding is outside this development.
  Every exception the modelled code can raise is a value of \<open>error\<close>, and a
  function that can raise returns \<open>error + 'a\<close> with the exception on the left.
\<close>

datatype error =
    IndexError
  | KeyError
  | ZeroDivisionError
  | ValueError
  | TypeError
  | Exception string
  | NotModelled

text \<open>Sequencing of two steps that may raise.\<close>

definition bindE :: "error + 'a \<Rightarrow> ('a \<Rightarrow> error + 'b) \<Rightarrow> error + 'b" where
  "bindE m f = (case m of Inl e \<Rightarrow> Inl e | Inr a \<Rightarrow> f a)"

text \<open>\<open>xs[i]\<close> for a non-negative index, and \<open>xs[-1]\<close>.\<close>

definition py_nth :: "'a list \<Rightarrow> nat \<Rightarrow> error + 'a" where
  "py_nth xs i = (if i < length xs then Inr (xs ! i) else Inl IndexError)"

definition py_last :: "'a list \<Rightarrow> error + 'a" where
  "py_last xs = (case xs of [] \<Rightarrow> Inl IndexError | _ # _ \<Rightarrow> Inr (last xs))"

text \<open>\<open>xs.insert(i, x)\<close> for a non-negative index: past the end it appends.\<close>

definition py_insert :: "nat \<Rightarrow> 'a \<Rightarrow> 'a list \<Rightarrow> 'a list" where
  "py_insert i x xs = take i xs @ x # drop i xs"

text \<open>\<open>int(x)\<close> of a finite float: truncation towards zero.\<close>

definition py_int :: "real \<Rightarrow> int" where
  "py_int x = (if 0 \<le> x then \<lfloor>x\<rfloor> else \<lceil>x\<rceil>)"

section \<open>The vector and quaternion library\<close>

text \<open>
  \<open>mathutils\<close> is the host's library. A \<open>Vector\<close> here has three components; a
  \<open>Quaternion\<close> is stored \<open>(w, x, y, z)\<close>, so \<open>rot[0]\<close> is \<open>qw\<close> and
  \<open>rot[3]\<close> is \<open>qz\<close>. \<open>Vector()\<close> is the zero vector and \<open>Quaternion()\<close> the
  identity rotation.
\<close>

datatype Vector = Vector (vx: real) (vy: real) (vz: real)

datatype Quaternion = Quaternion (qw: real) (qx: real) (qy: real) (qz: real)

definition Vector0 :: Vector where
  "Vector0 = Vector 0 0 0"

definition Quaternion1 :: Quaternion where
  "Quaternion1 = Quaternion 1 0 0 0"

fun vadd :: "Vector \<Rightarrow> Vector \<Rightarrow> Vector" where
  "vadd (Vector a b c) (Vector d e f) = Vector (a + d) (b + e) (c + f)"

fun vsub :: "Vector \<Rightarrow> Vector \<Rightarrow> Vector" where
  "vsub (Vector a b c) (Vector d e f) = Vector (a - d) (b - e) (c - f)"

text \<open>\<open>v1.lerp(v2, f)\<close>.\<close>

fun vlerp :: "Vector \<Rightarrow> Vector \<Rightarrow> real \<Rightarrow> Vector" where
  "vlerp (Vector a b c) (Vector d e f) t =
     Vector ((1 - t) * a + t * d) ((1 - t) * b + t * e) ((1 - t) * c + t * f)"

text \<open>\<open>q1 @ q2\<close>: the Hamilton product.\<close>

fun qmul :: "Quaternion \<Rightarrow> Quaternion \<Rightarrow> Quaternion" where
  "qmul (Quaternion a b c d) (Quaternion e f g h) =
     Quaternion (a * e - b * f - c * g - d * h)
                (a * f + b * e + c * h - d * g)
                (a * g - b * h + c * e + d * f)
                (a * h + b * g - c * f + d * e)"

definition qdot :: "Quaternion \<Rightarrow> Quaternion \<Rightarrow> real" where
  "qdot p q = qw p * qw q + qx p * qx q + qy p * qy q + qz p * qz q"

text \<open>\<open>q.magnitude\<close>.\<close>

definition magnitude :: "Quaternion \<Rightarrow> real" where
  "magnitude q = sqrt (qdot q q)"

text \<open>
  \<open>q.inverted()\<close>: the conjugate divided by the squared length; the library leaves a
  quaternion of length zero as it is.
\<close>

definition qinverted :: "Quaternion \<Rightarrow> Quaternion" where
  "qinverted q =
     (if qdot q q = 0 then q
      else Quaternion (qw q / qdot q q) (- qx q / qdot q q)
                      (- qy q / qdot q q) (- qz q / qdot q q))"

section \<open>coordinate_converter.py: single values\<close>

text \<open>
  Engine positions and rotations are plain tuples, \<open>(x, y, z)\<close> and
  \<open>(x, y, z, w)\<close>; the editor's are \<open>Vector\<close> and \<open>Quaternion\<close>.
\<close>

type_synonym pos_tuple = "real \<times> real \<times> real"
type_synonym rot_tuple = "real \<times> real \<times> real \<times> real"

fun pos_to_blender :: "pos_tuple \<Rightarrow> Vector" where
  "pos_to_blender (p0, p1, p2) = Vector (- p0) p2 p1"

fun pos_from_blender :: "Vector \<Rightarrow> pos_tuple" where
  "pos_from_blender (Vector p0 p1 p2) = (- p0, p2, p1)"

fun rot_to_blender :: "rot_tuple \<Rightarrow> Quaternion" where
  "rot_to_blender (r0, r1, r2, r3) = Quaternion r3 (- r0) r2 r1"

fun rot_from_blender :: "Quaternion \<Rightarrow> rot_tuple" where
  "rot_from_blender (Quaternion r0 r1 r2 r3) = (- r1, r3, r2, r0)"

text \<open>The length of an engine rotation tuple.\<close>

fun rot_tuple_norm :: "rot_tuple \<Rightarrow> real" where
  "rot_tuple_norm (x, y, z, w) = sqrt (x * x + y * y + z * z + w * w)"

text \<open>
  \<open>pattern1_to_blender\<close> maps every element \<open>x\<close> of its argument to the 1-tuple
  \<open>(x[0],)\<close>, written here as a one-element list; \<open>x[0]\<close> raises on an empty
  element. \<open>pattern1_from_blender\<close> returns a list of two lists.
\<close>

fun pattern1_to_blender :: "'a list list \<Rightarrow> error + 'a list list" where
  "pattern1_to_blender [] = Inr []"
| "pattern1_to_blender (x # pattern) =
     (case x of
        [] \<Rightarrow> Inl IndexError
      | x0 # _ \<Rightarrow>
          (case pattern1_to_blender pattern of
             Inl e \<Rightarrow> Inl e
           | Inr r \<Rightarrow> Inr ([x0] # r)))"

definition pattern1_from_blender :: "'a list \<Rightarrow> error + 'a list list" where
  "pattern1_from_blender pattern =
     (case py_last pattern of
        Inl e \<Rightarrow> Inl e
      | Inr l \<Rightarrow> Inr [pattern, tl pattern @ [l]])"

definition pattern2_to_blender :: "'a list \<Rightarrow> 'a list" where
  "pattern2_to_blender pattern = pattern"

definition pattern2_from_blender :: "'a list \<Rightarrow> 'a list" where
  "pattern2_from_blender pattern = pattern"

text \<open>
  Python's float division raises \<open>ZeroDivisionError\<close> on a zero divisor; \<open>tan\<close> and
  \<open>atan\<close> are the real functions.
\<close>

definition py_div :: "real \<Rightarrow> real \<Rightarrow> error + real" where
  "py_div a b = (if b = 0 then Inl ZeroDivisionError else Inr (a / b))"

definition fov_to_blender :: "real \<Rightarrow> real \<Rightarrow> error + real" where
  "fov_to_blender fov sensor_height = py_div (sensor_height / 2) (tan (fov / 2))"

definition fov_from_blender :: "real \<Rightarrow> real \<Rightarrow> error + real" where
  "fov_from_blender fov sensor_height =
     (case py_div sensor_height (2 * fov) of
        Inl e \<Rightarrow> Inl e
      | Inr r \<Rightarrow> Inr (2 * arctan r))"

section \<open>importer.py: merging the vector bone into the center bone\<close>

text \<open>
  A keyframe \<open>GMTKeyframe(frame, value)\<close> is the pair of its frame and its value. A
  curve's kind fixes the variant of its values (vectors for \<open>LOCATION\<close>, quaternions
  for \<open>ROTATION\<close>, lists of codes for \<open>PATTERN_HAND\<close>), so a curve is given by its
  kind together with keyframes of that variant. \<open>GMTCurve(kind)\<close> is the curve of that
  kind with no keyframes.
\<close>

datatype GMTCurveType = LOCATION | ROTATION | PATTERN_HAND

type_synonym 'v GMTKeyframe = "int \<times> 'v"

datatype GMTCurve =
    LocationCurve "Vector GMTKeyframe list"
  | RotationCurve "Quaternion GMTKeyframe list"
  | PatternCurve "int list GMTKeyframe list"

fun curve_type :: "GMTCurve \<Rightarrow> GMTCurveType" where
  "curve_type (LocationCurve _) = LOCATION"
| "curve_type (RotationCurve _) = ROTATION"
| "curve_type (PatternCurve _) = PATTERN_HAND"

fun curve_frames :: "GMTCurve \<Rightarrow> int list" where
  "curve_frames (LocationCurve ks) = map fst ks"
| "curve_frames (RotationCurve ks) = map fst ks"
| "curve_frames (PatternCurve ks) = map fst ks"

fun GMTCurve_new :: "GMTCurveType \<Rightarrow> GMTCurve" where
  "GMTCurve_new LOCATION = LocationCurve []"
| "GMTCurve_new ROTATION = RotationCurve []"
| "GMTCurve_new PATTERN_HAND = PatternCurve []"

text \<open>
  Modelled from the spec: \<open>GMTCurve.get_end_frame\<close> belongs to the format library,
  which is not among the sources; it is the curve's last frame (\<open>last_frame\<close> in the
  description of the merge). \<open>add_curve\<close> reaches it with non-empty curves only.
\<close>

definition get_end_frame :: "'v GMTKeyframe list \<Rightarrow> int" where
  "get_end_frame ks = (case ks of [] \<Rightarrow> 0 | _ # _ \<Rightarrow> fst (last ks))"

text \<open>
  A Python dictionary keeps its keys in the order of their first insertion; storing
  under a key that is present replaces the value where it stands. \<open>dict_of\<close> is the
  comprehension \<open>{kf.frame: kf.value for kf in keyframes}\<close>.
\<close>

fun dict_set :: "'k \<Rightarrow> 'v \<Rightarrow> ('k \<times> 'v) list \<Rightarrow> ('k \<times> 'v) list" where
  "dict_set k v [] = [(k, v)]"
| "dict_set k v (p # ps) = (if fst p = k then (k, v) # ps else p # dict_set k v ps)"

definition dict_of :: "('k \<times> 'v) list \<Rightarrow> ('k \<times> 'v) list" where
  "dict_of kfs = foldl (\<lambda>d kf. dict_set (fst kf) (snd kf) d) [] kfs"

text \<open>\<open>d[k]\<close>, which raises on a missing key (\<open>d.get(k)\<close> is \<open>map_of d k\<close>).\<close>

definition py_getitem :: "('k \<times> 'v) list \<Rightarrow> 'k \<Rightarrow> error + 'v" where
  "py_getitem d k = (case map_of d k of None \<Rightarrow> Inl KeyError | Some v \<Rightarrow> Inr v)"

text \<open>
  The value of a curve at a frame \<open>i\<close> where it has no keyframe, as \<open>add_curve\<close>
  computes it for either curve: \<open>less\<close> is the last key below \<open>i\<close> (searching the keys
  from the back) or else the first keyframe's frame, \<open>more\<close> the first key above \<open>i\<close>
  or else the last keyframe's frame.
\<close>

definition interpolated ::
  "('v \<Rightarrow> 'v \<Rightarrow> real \<Rightarrow> 'v) \<Rightarrow> (int \<times> 'v) list \<Rightarrow> int \<Rightarrow> int \<Rightarrow> int \<Rightarrow> error + 'v" where
  "interpolated lerp d dmin dmax i =
     (let less = (case find (\<lambda>k. k < i) (rev (map fst d)) of None \<Rightarrow> dmin | Some k \<Rightarrow> k);
          more = (case find (\<lambda>k. k > i) (map fst d) of None \<Rightarrow> dmax | Some k \<Rightarrow> k)
      in if less \<noteq> more
         then bindE (py_getitem d less) (\<lambda>a.
              bindE (py_getitem d more) (\<lambda>b.
              Inr (lerp a b (real_of_int (i - less) / real_of_int (more - less)))))
         else py_getitem d less)"

text \<open>The body of the loop over the frames: the keyframe appended at frame \<open>i\<close>, if any.\<close>

definition merged_keyframe ::
  "('v \<Rightarrow> 'v \<Rightarrow> 'v) \<Rightarrow> ('v \<Rightarrow> 'v \<Rightarrow> real \<Rightarrow> 'v) \<Rightarrow>
   (int \<times> 'v) list \<Rightarrow> int \<Rightarrow> int \<Rightarrow> (int \<times> 'v) list \<Rightarrow> int \<Rightarrow> int \<Rightarrow>
   int \<Rightarrow> error + 'v GMTKeyframe option" where
  "merged_keyframe add lerp curve_dict curve_min curve_max other_dict other_min other_max i =
     (case (map_of curve_dict i, map_of other_dict i) of
        (None, None) \<Rightarrow> Inr None
      | (v1, v2) \<Rightarrow>
          bindE (case v1 of
                   None \<Rightarrow> interpolated lerp curve_dict curve_min curve_max i
                 | Some a \<Rightarrow> Inr a) (\<lambda>a.
          bindE (case v2 of
                   None \<Rightarrow> interpolated lerp other_dict other_min other_max i
                 | Some b \<Rightarrow> Inr b) (\<lambda>b.
          Inr (Some (i, add a b)))))"

fun collect_frames :: "(int \<Rightarrow> error + 'a option) \<Rightarrow> int list \<Rightarrow> error + 'a list" where
  "collect_frames f [] = Inr []"
| "collect_frames f (i # is) =
     (case f i of
        Inl e \<Rightarrow> Inl e
      | Inr r \<Rightarrow>
          (case collect_frames f is of
             Inl e \<Rightarrow> Inl e
           | Inr result \<Rightarrow> Inr (case r of None \<Rightarrow> result | Some kf \<Rightarrow> kf # result)))"

text \<open>
  \<open>add_curve\<close> after the choice of \<open>add\<close>, \<open>lerp\<close> and the identity value by the
  curve's kind: an empty \<open>curve\<close> gets one identity keyframe at frame 0; the first and
  last keyframes of both curves are read (\<open>IndexError\<close> on an empty list); then the
  frames \<open>0 .. max(end frames)\<close> are visited in order.
\<close>

definition add_keyframes ::
  "('v \<Rightarrow> 'v \<Rightarrow> 'v) \<Rightarrow> ('v \<Rightarrow> 'v \<Rightarrow> real \<Rightarrow> 'v) \<Rightarrow> 'v \<Rightarrow>
   'v GMTKeyframe list \<Rightarrow> 'v GMTKeyframe list \<Rightarrow> error + 'v GMTKeyframe list" where
  "add_keyframes add lerp identity curve0 other =
     (let curve = (if length curve0 = 0 then curve0 @ [(0, identity)] else curve0);
          curve_dict = dict_of curve
      in bindE (py_nth curve 0) (\<lambda>kf_min.
         bindE (py_last curve) (\<lambda>kf_max.
         let other_dict = dict_of other
         in bindE (py_nth other 0) (\<lambda>okf_min.
            bindE (py_last other) (\<lambda>okf_max.
            collect_frames
              (merged_keyframe add lerp curve_dict (fst kf_min) (fst kf_max)
                 other_dict (fst okf_min) (fst okf_max))
              [0 .. max (get_end_frame curve) (get_end_frame other)])))))"



text \<open>
  \<open>add_curve(curve, other)\<close> returns the new state of \<open>curve\<close>; \<open>other\<close> is not
  changed. The spherical interpolation \<open>slerp\<close> of the host's library is a parameter.
\<close>

fun add_curve ::
  "(Quaternion \<Rightarrow> Quaternion \<Rightarrow> real \<Rightarrow> Quaternion) \<Rightarrow> GMTCurve \<Rightarrow> GMTCurve \<Rightarrow> error + GMTCurve" where
  "add_curve slerp curve other =
     (if curve_type curve \<noteq> curve_type other
      then Inl (Exception ''Curves with different types cannot be added'')
      else (case (curve, other) of
              (LocationCurve ks, LocationCurve os) \<Rightarrow>
                bindE (add_keyframes vadd vlerp Vector0 ks os) (\<lambda>r. Inr (LocationCurve r))
            | (RotationCurve ks, RotationCurve os) \<Rightarrow>
                bindE (add_keyframes qmul slerp Quaternion1 ks os) (\<lambda>r. Inr (RotationCurve r))
            | _ \<Rightarrow> Inl (Exception ''Incompatible curve type for addition'')))"

text \<open>
  A bone with its location and rotation curves, and the vector version of the file.
  \<open>merge_vector\<close> returns the new states of the two bones (either may be absent).
\<close>

record GMTBone =
  location :: GMTCurve
  rotation :: GMTCurve

datatype GMTVectorVersion = NO_VECTOR | OLD_VECTOR | DRAGON_VECTOR

definition merge_vector ::
  "(Quaternion \<Rightarrow> Quaternion \<Rightarrow> real \<Rightarrow> Quaternion) \<Rightarrow> GMTBone option \<Rightarrow> GMTBone option \<Rightarrow>
   GMTVectorVersion \<Rightarrow> bool \<Rightarrow> error + (GMTBone option \<times> GMTBone option)" where
  "merge_vector slerp center_bone vector_bone vector_version is_auth =
     (case (center_bone, vector_bone) of
        (Some center, Some vector) \<Rightarrow>
          if vector_version = NO_VECTOR then Inr (center_bone, vector_bone)
          else
            bindE (if (vector_version = OLD_VECTOR \<and> \<not> is_auth) \<or> vector_version = DRAGON_VECTOR
                   then bindE (add_curve slerp (location center) (location vector)) (\<lambda>l.
                        bindE (add_curve slerp (rotation center) (rotation vector)) (\<lambda>r.
                        Inr (center\<lparr>location := l, rotation := r\<rparr>)))
                   else Inr center) (\<lambda>center'.
            Inr (Some center',
                 Some (vector\<lparr>location := GMTCurve_new LOCATION,
                              rotation := GMTCurve_new ROTATION\<rparr>)))
      | _ \<Rightarrow> Inr (center_bone, vector_bone))"

section \<open>Matrices of the host library\<close>

text \<open>
  A 3x3 matrix is given by its nine entries, row by row. Every 4x4 matrix the add-on
  builds has the last row \<open>(0, 0, 0, 1)\<close>; it is given by its upper left 3x3 block and
  its translation column. \<open>A @ B\<close> is the matrix product, \<open>inverted()\<close> raises
  \<open>ValueError\<close> on a matrix without an inverse, and \<open>q.to_matrix()\<close> is the library's
  conversion, which does not normalise \<open>q\<close>.
\<close>

datatype Matrix3 = Matrix3 real real real real real real real real real

datatype Matrix4 = Matrix4 Matrix3 Vector

fun mat_vec :: "Matrix3 \<Rightarrow> Vector \<Rightarrow> Vector" where
  "mat_vec (Matrix3 a b c d e f g h i) (Vector x y z) =
     Vector (a * x + b * y + c * z) (d * x + e * y + f * z) (g * x + h * y + i * z)"

fun mat_mul :: "Matrix3 \<Rightarrow> Matrix3 \<Rightarrow> Matrix3" where
  "mat_mul (Matrix3 a b c d e f g h i) (Matrix3 a' b' c' d' e' f' g' h' i') =
     Matrix3 (a * a' + b * d' + c * g') (a * b' + b * e' + c * h') (a * c' + b * f' + c * i')
             (d * a' + e * d' + f * g') (d * b' + e * e' + f * h') (d * c' + e * f' + f * i')
             (g * a' + h * d' + i * g') (g * b' + h * e' + i * h') (g * c' + h * f' + i * i')"

fun determinant :: "Matrix3 \<Rightarrow> real" where
  "determinant (Matrix3 a b c d e f g h i) =
     a * (e * i - f * h) - b * (d * i - f * g) + c * (d * h - e * g)"

fun adjugate :: "Matrix3 \<Rightarrow> Matrix3" where
  "adjugate (Matrix3 a b c d e f g h i) =
     Matrix3 (e * i - f * h) (c * h - b * i) (b * f - c * e)
             (f * g - d * i) (a * i - c * g) (c * d - a * f)
             (d * h - e * g) (b * g - a * h) (a * e - b * d)"

fun mat_scale :: "real \<Rightarrow> Matrix3 \<Rightarrow> Matrix3" where
  "mat_scale s (Matrix3 a b c d e f g h i) =
     Matrix3 (s * a) (s * b) (s * c) (s * d) (s * e) (s * f) (s * g) (s * h) (s * i)"

definition mat_inverted :: "Matrix3 \<Rightarrow> error + Matrix3" where
  "mat_inverted m =
     (if determinant m = 0 then Inl ValueError
      else Inr (mat_scale (1 / determinant m) (adjugate m)))"

definition Identity3 :: Matrix3 where
  "Identity3 = Matrix3 1 0 0 0 1 0 0 0 1"

fun vneg :: "Vector \<Rightarrow> Vector" where
  "vneg (Vector a b c) = Vector (- a) (- b) (- c)"

fun m4_mul :: "Matrix4 \<Rightarrow> Matrix4 \<Rightarrow> Matrix4" where
  "m4_mul (Matrix4 A a) (Matrix4 B b) = Matrix4 (mat_mul A B) (vadd (mat_vec A b) a)"

fun m4_inverted :: "Matrix4 \<Rightarrow> error + Matrix4" where
  "m4_inverted (Matrix4 A a) =
     (case mat_inverted A of
        Inl e \<Rightarrow> Inl e
      | Inr Ai \<Rightarrow> Inr (Matrix4 Ai (vneg (mat_vec Ai a))))"

definition Translation :: "Vector \<Rightarrow> Matrix4" where
  "Translation v = Matrix4 Identity3 v"

definition to_4x4 :: "Matrix3 \<Rightarrow> Matrix4" where
  "to_4x4 m = Matrix4 m Vector0"

fun to_translation :: "Matrix4 \<Rightarrow> Vector" where
  "to_translation (Matrix4 A a) = a"

fun to_3x3 :: "Matrix4 \<Rightarrow> Matrix3" where
  "to_3x3 (Matrix4 A a) = A"

fun to_matrix :: "Quaternion \<Rightarrow> Matrix3" where
  "to_matrix (Quaternion w x y z) =
     Matrix3 (1 - 2 * (y * y + z * z)) (2 * (x * y - w * z)) (2 * (x * z + w * y))
             (2 * (x * y + w * z)) (1 - 2 * (x * x + z * z)) (2 * (y * z - w * x))
             (2 * (x * z - w * y)) (2 * (y * z + w * x)) (1 - 2 * (x * x + y * y))"

section \<open>Bone descriptors\<close>

text \<open>
  Modelled from the spec: the class \<open>GMTBlenderBoneProps\<close> (bone_props.py) is not among
  the sources. A descriptor holds the bone's head, rest translation \<open>loc\<close>, rest
  rotation \<open>rot\<close>, local rotation \<open>rot_local\<close> and the optional name of its parent;
  \<open>GMTBlenderBoneProps()\<close> is the identity descriptor (head and translation zero,
  rotations the identity, no parent). The table \<open>bone_props\<close> maps bone names to
  descriptors; looking up an absent parent name finds nothing.
\<close>

record GMTBlenderBoneProps =
  head :: Vector
  loc :: Vector
  rot :: Quaternion
  rot_local :: Quaternion
  parent_name :: "string option"

definition GMTBlenderBoneProps0 :: GMTBlenderBoneProps where
  "GMTBlenderBoneProps0 =
     \<lparr>head = Vector0, loc = Vector0, rot = Quaternion1, rot_local = Quaternion1,
      parent_name = None\<rparr>"

type_synonym bone_table = "string \<Rightarrow> GMTBlenderBoneProps option"

text \<open>\<open>bone_props.get(prop.parent_name)\<close>.\<close>

definition get_parent :: "bone_table \<Rightarrow> GMTBlenderBoneProps \<Rightarrow> GMTBlenderBoneProps option" where
  "get_parent bone_props prop =
     (case parent_name prop of None \<Rightarrow> None | Some n \<Rightarrow> bone_props n)"

section \<open>coordinate_converter.py: bone-space transforms\<close>

text \<open>\<open>bone_props.get(bone_name, GMTBlenderBoneProps())\<close>.\<close>

definition get_props :: "bone_table \<Rightarrow> string \<Rightarrow> GMTBlenderBoneProps" where
  "get_props bone_props bone_name =
     (case bone_props bone_name of None \<Rightarrow> GMTBlenderBoneProps0 | Some prop \<Rightarrow> prop)"

text \<open>
  The two matrices \<open>pre_mat\<close> and \<open>post_mat\<close> are computed before the values are
  mapped, so a rest rotation whose matrix has no inverse raises even for an empty list
  of values. Python's \<open>A @ B @ C\<close> is \<open>(A @ B) @ C\<close>.
\<close>

definition transform_location_to_blender ::
  "bone_table \<Rightarrow> string \<Rightarrow> Vector list \<Rightarrow> error + Vector list" where
  "transform_location_to_blender bone_props bone_name vals =
     (let prop = get_props bone_props bone_name;
          parent_head = (case get_parent bone_props prop of
                           Some parent \<Rightarrow> head parent
                         | None \<Rightarrow> Vector0)
      in bindE (m4_inverted (Translation (loc prop))) (\<lambda>inv_loc.
         bindE (m4_inverted (to_4x4 (to_matrix (rot prop)))) (\<lambda>inv_rot.
         let pre_mat = m4_mul inv_loc inv_rot;
             post_mat = m4_mul (to_4x4 (to_matrix (rot prop))) (Translation (loc prop))
         in Inr (map (\<lambda>x. to_translation
                           (m4_mul (m4_mul pre_mat
                                      (Translation (vadd (vsub x (head prop)) parent_head)))
                                   post_mat)) vals))))"

definition transform_location_from_blender ::
  "bone_table \<Rightarrow> string \<Rightarrow> Vector list \<Rightarrow> error + pos_tuple list" where
  "transform_location_from_blender bone_props bone_name vals =
     (let prop = get_props bone_props bone_name;
          parent_head = (case get_parent bone_props prop of
                           Some parent \<Rightarrow> head parent
                         | None \<Rightarrow> Vector0);
          pre_mat = m4_mul (to_4x4 (to_matrix (rot prop))) (Translation (loc prop))
      in bindE (m4_inverted (Translation (loc prop))) (\<lambda>inv_loc.
         bindE (m4_inverted (to_4x4 (to_matrix (rot prop)))) (\<lambda>inv_rot.
         let post_mat = m4_mul inv_loc inv_rot
         in Inr (map (\<lambda>x. pos_from_blender
                           (vsub (vadd (to_translation
                                          (m4_mul (m4_mul pre_mat (Translation x)) post_mat))
                                       (head prop))
                                 parent_head)) vals))))"

definition transform_rotation_to_blender ::
  "bone_table \<Rightarrow> string \<Rightarrow> Quaternion list \<Rightarrow> Quaternion list" where
  "transform_rotation_to_blender bone_props bone_name vals =
     (let prop = get_props bone_props bone_name;
          parent_rot = (case get_parent bone_props prop of
                          Some parent \<Rightarrow> rot_local parent
                        | None \<Rightarrow> Quaternion1);
          pre_quat = qmul (qinverted (rot prop)) parent_rot;
          post_quat = qmul (qmul (qinverted (rot_local prop)) (qinverted parent_rot)) (rot prop)
      in map (\<lambda>x. qmul (qmul pre_quat x) post_quat) vals)"

definition transform_rotation_from_blender ::
  "bone_table \<Rightarrow> string \<Rightarrow> Quaternion list \<Rightarrow> rot_tuple list" where
  "transform_rotation_from_blender bone_props bone_name vals =
     (let prop = get_props bone_props bone_name;
          parent_rot = (case get_parent bone_props prop of
                          Some parent \<Rightarrow> rot_local parent
                        | None \<Rightarrow> Quaternion1);
          pre_quat = qmul (qinverted parent_rot) (rot prop);
          post_quat = qmul (qmul (qinverted (rot prop)) parent_rot) (rot_local prop)
      in map (\<lambda>x. rot_from_blender (qmul (qmul pre_quat x) post_quat)) vals)"

text \<open>
  A rest-pose orientation is a quaternion of length one. \<open>unit_rest_rotations\<close> says so
  of the three rotations the transforms of a bone read: the bone's \<open>rot\<close> and
  \<open>rot_local\<close>, and its parent's \<open>rot_local\<close> when the parent is in the table.
\<close>

definition unit_quaternion :: "Quaternion \<Rightarrow> bool" where
  "unit_quaternion q = (qdot q q = 1)"

definition unit_rest_rotations :: "bone_table \<Rightarrow> string \<Rightarrow> bool" where
  "unit_rest_rotations bone_props bone_name =
     (let prop = get_props bone_props bone_name
      in unit_quaternion (rot prop) \<and> unit_quaternion (rot_local prop)
         \<and> (case get_parent bone_props prop of
               None \<Rightarrow> True
             | Some parent \<Rightarrow> unit_quaternion (rot_local parent)))"

text \<open>
  What the transforms need of the rest rotations. \<open>q.inverted()\<close> is the inverse of
  every quaternion but the zero quaternion, and the position transform inverts the
  matrix of the bone's \<open>rot\<close>, which \<open>to_matrix\<close> builds without normalising.
\<close>

definition nonzero_quaternion :: "Quaternion \<Rightarrow> bool" where
  "nonzero_quaternion q = (qdot q q \<noteq> 0)"

definition nonzero_rest_rotations :: "bone_table \<Rightarrow> string \<Rightarrow> bool" where
  "nonzero_rest_rotations bone_props bone_name =
     (let prop = get_props bone_props bone_name
      in nonzero_quaternion (rot prop) \<and> nonzero_quaternion (rot_local prop)
         \<and> (case get_parent bone_props prop of
               None \<Rightarrow> True
             | Some parent \<Rightarrow> nonzero_quaternion (rot_local parent)))"

definition invertible_rest_rotation :: "bone_table \<Rightarrow> string \<Rightarrow> bool" where
  "invertible_rest_rotation bone_props bone_name =
     (determinant (to_matrix (rot (get_props bone_props bone_name))) \<noteq> 0)"

section \<open>exporter.py: building a curve from the editor's channels\<close>

text \<open>
  A keyframe point of an editor channel has the coordinates \<open>co = (frame, value)\<close> and
  an interpolation mode, read as a number (\<open>CONSTANT\<close> is 0). \<open>foreach_get("co", a)\<close>
  fills \<open>a\<close> with the coordinates of all points in order, two numbers a point;
  \<open>foreach_get("interpolation", a)\<close> fills \<open>a\<close> with the modes and raises when the
  length of \<open>a\<close> is not the number of points.
\<close>

record Keyframe =
  co :: "real \<times> real"
  interpolation :: int

record FCurve =
  keyframe_points :: "Keyframe list"

definition foreach_get_co :: "FCurve \<Rightarrow> real list" where
  "foreach_get_co c = concat (map (\<lambda>k. [fst (co k), snd (co k)]) (keyframe_points c))"

definition foreach_get_interpolation :: "FCurve \<Rightarrow> 'a list \<Rightarrow> error + int list" where
  "foreach_get_interpolation c a =
     (if length a = length (keyframe_points c)
      then Inr (map interpolation (keyframe_points c))
      else Inl TypeError)"

text \<open>The slice \<open>xs[::2]\<close>.\<close>

fun every_second :: "'a list \<Rightarrow> 'a list" where
  "every_second [] = []"
| "every_second [x] = [x]"
| "every_second (x # y # xs) = x # every_second xs"

datatype CurveFormat =
    POS_VEC3
  | ROT_QUAT_SCALED
  | ROT_QUAT_HALF_FLOAT
  | PAT1_LEFT_HAND
  | PAT1_RIGHT_HAND

text \<open>
  The values of an exported curve: engine positions, engine rotations, or pairs of
  pattern codes \<open>[start, end]\<close>.
\<close>

datatype curve_value =
    PosValue pos_tuple
  | RotValue rot_tuple
  | PatValue "int list"

record Curve =
  curve_format :: CurveFormat
  graph_keyframes :: "int list"
  graph_delimiter :: int
  curve_values :: "curve_value list"

definition correct_pattern :: "real list \<Rightarrow> real list" where
  "correct_pattern pattern = map (\<lambda>x. if x > 17 then 0 else x) pattern"

text \<open>
  \<open>GMTExporter.transform_location\<close>: \<open>self.bone_props[bone_name]\<close> raises on an unknown
  bone, and the \<open>print(values[0])\<close> at its end raises on an empty list.
\<close>

definition transform_location ::
  "bone_table \<Rightarrow> string \<Rightarrow> Vector list \<Rightarrow> error + pos_tuple list" where
  "transform_location bone_props bone_name vals =
     (case bone_props bone_name of
        None \<Rightarrow> Inl KeyError
      | Some prop \<Rightarrow>
          let parent_head = (case get_parent bone_props prop of
                               Some parent \<Rightarrow> head parent
                             | None \<Rightarrow> Vector0);
              vals' = map (\<lambda>x. pos_from_blender
                             (vsub (vadd (to_translation
                                            (m4_mul (to_4x4 (to_matrix (rot prop))) (Translation x)))
                                         (head prop))
                                   parent_head)) vals
          in bindE (py_nth vals' 0) (\<lambda>_. Inr vals'))"

text \<open>
  \<open>GMTExporter.transform_rotation\<close>. The conversion of a matrix to a quaternion is the
  library's and is a parameter. The product is taken from the left, as Python does.
\<close>

fun map_raise :: "('a \<Rightarrow> error + 'b) \<Rightarrow> 'a list \<Rightarrow> error + 'b list" where
  "map_raise f [] = Inr []"
| "map_raise f (x # xs) =
     (case f x of
        Inl e \<Rightarrow> Inl e
      | Inr y \<Rightarrow> (case map_raise f xs of Inl e \<Rightarrow> Inl e | Inr ys \<Rightarrow> Inr (y # ys)))"

definition transform_rotation ::
  "(Matrix3 \<Rightarrow> Quaternion) \<Rightarrow> bone_table \<Rightarrow> string \<Rightarrow> Quaternion list \<Rightarrow> error + rot_tuple list" where
  "transform_rotation to_quaternion bone_props bone_name vals =
     (case bone_props bone_name of
        None \<Rightarrow> Inl KeyError
      | Some prop \<Rightarrow>
          map_raise (\<lambda>x.
            bindE (m4_inverted (to_4x4 (to_matrix (rot prop)))) (\<lambda>inv_rot.
            Inr (rot_from_blender (to_quaternion (to_3x3
              (m4_mul (m4_mul (m4_mul (to_4x4 (to_matrix (rot_local prop)))
                                      (to_4x4 (to_matrix (rot prop))))
                              (to_4x4 (to_matrix x)))
                      inv_rot)))))) vals)"

text \<open>
  The first loop of \<open>make_curve\<close>: the coordinates of every axis, \<open>fcurves[axis]\<close>
  raising on a missing axis.
\<close>

fun axes_co_of :: "(string \<Rightarrow> FCurve option) \<Rightarrow> string list \<Rightarrow> error + real list list" where
  "axes_co_of fcurves [] = Inr []"
| "axes_co_of fcurves (axis # axes) =
     (case fcurves axis of
        None \<Rightarrow> Inl KeyError
      | Some c \<Rightarrow>
          (case axes_co_of fcurves axes of
             Inl e \<Rightarrow> Inl e
           | Inr r \<Rightarrow> Inr (foreach_get_co c # r)))"

text \<open>
  The loop over the axes that computes \<open>pol\<close>: a keyframe stays marked while every axis
  has the mode 0 there.
\<close>

fun pol_loop :: "(string \<Rightarrow> FCurve option) \<Rightarrow> string list \<Rightarrow> bool list \<Rightarrow> error + bool list" where
  "pol_loop fcurves [] pol = Inr pol"
| "pol_loop fcurves (axis # axes) pol =
     (case fcurves axis of
        None \<Rightarrow> Inl KeyError
      | Some c \<Rightarrow>
          (case foreach_get_interpolation c pol of
             Inl e \<Rightarrow> Inl e
           | Inr axis_pol \<Rightarrow>
               pol_loop fcurves axes (map (\<lambda>(a, b). a \<and> b = 0) (zip pol axis_pol))))"

text \<open>
  The loop that duplicates keyframes, over \<open>i\<close> in \<open>range(len(pol) - 1)\<close> with the
  running offset \<open>j\<close>.
\<close>

fun dup_loop ::
  "bool list \<Rightarrow> nat list \<Rightarrow> nat \<Rightarrow> int list \<Rightarrow> 'v list \<Rightarrow> error + (int list \<times> 'v list)" where
  "dup_loop pol [] j keyframes vals = Inr (keyframes, vals)"
| "dup_loop pol (i # is) j keyframes vals =
     (let k = i + j in
      case py_nth pol i of
        Inl e \<Rightarrow> Inl e
      | Inr p \<Rightarrow>
          if \<not> p then dup_loop pol is j keyframes vals
          else
            (case py_nth keyframes (k + 1) of
               Inl e \<Rightarrow> Inl e
             | Inr next_frame \<Rightarrow>
                 (case py_nth keyframes k of
                    Inl e \<Rightarrow> Inl e
                  | Inr this_frame \<Rightarrow>
                      if next_frame - this_frame > 1
                      then (case py_nth vals k of
                              Inl e \<Rightarrow> Inl e
                            | Inr v \<Rightarrow>
                                dup_loop pol is (j + 1)
                                  (py_insert (k + 1) (next_frame - 1) keyframes)
                                  (py_insert (k + 1) v vals))
                      else dup_loop pol is j keyframes vals)))"

text \<open>
  The branch on the number of axes: the values of the curve and whether it is
  interpolated. \<open>make_bone\<close> calls \<open>make_curve\<close> with three, four or one axis; with any
  other number the source leaves \<open>curve.values\<close> as the constructor of \<open>Curve\<close> made it,
  which the sources do not show, and the model stops with \<open>NotModelled\<close>. The exporter
  imports the pattern pairing under the name \<open>pattern_from_blender\<close>; it is
  \<open>pattern1_from_blender\<close> of the converter.
\<close>

definition values_of_axes ::
  "(Matrix3 \<Rightarrow> Quaternion) \<Rightarrow> bool \<Rightarrow> bone_table \<Rightarrow> real list list \<Rightarrow> string \<Rightarrow>
   error + (curve_value list \<times> bool)" where
  "values_of_axes to_quaternion is_dragon_engine bone_props axes_co group_name =
     (if length axes_co = 3
      then bindE (transform_location bone_props group_name
                    (map (\<lambda>(x, y, z). Vector x y z)
                       (zip (every_second (tl (axes_co ! 0)))
                         (zip (every_second (tl (axes_co ! 1)))
                              (every_second (tl (axes_co ! 2)))))))
             (\<lambda>vs. Inr (map PosValue vs, True))
      else if length axes_co = 4
      then bindE (transform_rotation to_quaternion bone_props group_name
                    (map (\<lambda>(w, x, y, z). Quaternion w x y z)
                       (zip (every_second (tl (axes_co ! 0)))
                         (zip (every_second (tl (axes_co ! 1)))
                           (zip (every_second (tl (axes_co ! 2)))
                                (every_second (tl (axes_co ! 3))))))))
             (\<lambda>vs. Inr (map RotValue vs, True))
      else if length axes_co = 1
      then (let codes = every_second (tl (axes_co ! 0));
                codes' = (if \<not> is_dragon_engine then correct_pattern codes else codes)
            in bindE (pattern1_from_blender codes') (\<lambda>cols.
               bindE (py_nth cols 0) (\<lambda>starts.
               bindE (py_nth cols 1) (\<lambda>ends.
               Inr (map (\<lambda>(s, e). PatValue [py_int s, py_int e]) (zip starts ends), False)))))
      else Inl NotModelled)"

definition make_curve ::
  "(Matrix3 \<Rightarrow> Quaternion) \<Rightarrow> bool \<Rightarrow> bone_table \<Rightarrow> (string \<Rightarrow> FCurve option) \<Rightarrow>
   string list \<Rightarrow> CurveFormat \<Rightarrow> string \<Rightarrow> error + Curve" where
  "make_curve to_quaternion is_dragon_engine bone_props fcurves axes fmt group_name =
     bindE (axes_co_of fcurves axes) (\<lambda>axes_co.
     bindE (py_nth axes_co 0) (\<lambda>first.
     let keyframes = map py_int (every_second first)
     in bindE (values_of_axes to_quaternion is_dragon_engine bone_props axes_co group_name)
          (\<lambda>(vals, interpolate).
             if interpolate
             then bindE (pol_loop fcurves axes (replicate (length first div 2) True)) (\<lambda>pol.
                  bindE (dup_loop pol [0 ..< length pol - 1] 0 keyframes vals) (\<lambda>(keyframes', vals').
                  Inr \<lparr>curve_format = fmt, graph_keyframes = keyframes',
                       graph_delimiter = - 1, curve_values = vals'\<rparr>))
             else Inr \<lparr>curve_format = fmt, graph_keyframes = keyframes,
                       graph_delimiter = - 1, curve_values = vals\<rparr>)))"

text \<open>
  The duplication of constant-interpolated keyframes as the format description words
  it, on keyframes \<open>(frame, value, constant)\<close>: between two consecutive keyframes of
  which the first is constant-interpolated and which are more than one frame apart, a
  keyframe with the first one's value is put one frame before the second.
\<close>

fun constant_duplication :: "(int \<times> 'v \<times> bool) list \<Rightarrow> (int \<times> 'v) list" where
  "constant_duplication [] = []"
| "constant_duplication [(f, v, c)] = [(f, v)]"
| "constant_duplication ((f, v, c) # (f', v', c') # rest) =
     (f, v) # (if c \<and> f' - f > 1 then [(f' - 1, v)] else [])
       @ constant_duplication ((f', v', c') # rest)"

text \<open>
  The data model's invariant on the frames of a curve: non-negative and strictly
  increasing.
\<close>

definition wf_frames :: "int list \<Rightarrow> bool" where
  "wf_frames fs = (sorted_wrt (<) fs \<and> list_all (\<lambda>f. 0 \<le> f) fs)"

section \<open>Properties of the single-value conversions\<close>

text \<open>
  Claim C5. Converting an engine position to the editor and back returns it exactly;
  both directions negate the first component and swap the other two.
\<close>

theorem pos_roundtrip:
  "pos_from_blender (pos_to_blender (x, y, z)) = (x, y, z)
   \<and> pos_to_blender (x, y, z) = Vector (- x) z y
   \<and> pos_from_blender (Vector x y z) = (- x, z, y)"
  by simp

text \<open>
  Claim C6. Converting an engine rotation \<open>(x, y, z, w)\<close> to the editor and back
  returns it exactly (same sign), and each conversion keeps the length of the quaternion.
\<close>

theorem rot_roundtrip_norm:
  "rot_from_blender (rot_to_blender (x, y, z, w)) = (x, y, z, w)
   \<and> magnitude (rot_to_blender (x, y, z, w)) = rot_tuple_norm (x, y, z, w)
   \<and> rot_tuple_norm (rot_from_blender r) = magnitude r"
  by (cases r) (simp add: magnitude_def qdot_def add_ac)

text \<open>
  Claim C7, as the code has it. The two field-of-view conversions divide without a
  guard: \<open>fov_to_blender\<close> raises \<open>ZeroDivisionError\<close> exactly when
  \<open>tan (fov / 2)\<close> is zero, \<open>fov_from_blender\<close> exactly when the focal length is
  zero, and in those cases no value (no sentinel) is returned.
\<close>

theorem fov_degenerate_raises:
  "(fov_to_blender fov sensor_height = Inl ZeroDivisionError) = (tan (fov / 2) = 0)
   \<and> (fov_from_blender focal sensor_height = Inl ZeroDivisionError) = (focal = 0)
   \<and> (tan (fov / 2) = 0 \<longrightarrow> (\<forall>v. fov_to_blender fov sensor_height \<noteq> Inr v))
   \<and> (focal = 0 \<longrightarrow> (\<forall>v. fov_from_blender focal sensor_height \<noteq> Inr v))"
  by (auto simp: fov_to_blender_def fov_from_blender_def py_div_def)

theorem fov_degenerate_raises_witness:
  "fov_to_blender 0 100 = Inl ZeroDivisionError \<and> fov_from_blender 0 100 = Inl ZeroDivisionError"
  using fov_degenerate_raises [of 0 100 0] by simp

text \<open>
  Claim C7 as stated fails: at \<open>fov = 0\<close> and at \<open>focal = 0\<close> neither conversion
  returns a value.
\<close>

theorem fov_sentinel_counterexample:
  "\<not> (\<exists>v. fov_to_blender 0 100 = Inr v) \<and> \<not> (\<exists>v. fov_from_blender 0 100 = Inr v)"
  by (simp add: fov_to_blender_def fov_from_blender_def py_div_def)

lemma pattern1_to_blender_pairs:
  "length starts = length ends \<Longrightarrow>
   pattern1_to_blender (map2 (\<lambda>s e. [s, e]) starts ends) = Inr (map (\<lambda>c. [c]) starts)"
  by (induction starts ends rule: list_induct2) simp_all

text \<open>
  Claim C9, as the code has it. For a non-empty list of \<open>N\<close> codes
  \<open>pattern1_from_blender\<close> returns two lists of length \<open>N\<close>: the codes, and the
  codes moved one place forward with the last code repeated. Zipped element by element
  (as \<open>make_curve\<close> does) they are the \<open>N\<close> pairs of start and end code, and
  \<open>pattern1_to_blender\<close> maps these pairs to the 1-tuples of their start codes.
\<close>

theorem pattern_pairing:
  assumes "pattern \<noteq> []"
  shows "pattern1_from_blender pattern = Inr [pattern, tl pattern @ [last pattern]]
    \<and> length (tl pattern @ [last pattern]) = length pattern
    \<and> (\<forall>i < length pattern.
          (tl pattern @ [last pattern]) ! i =
            (if Suc i < length pattern then pattern ! Suc i else pattern ! i))
    \<and> pattern1_to_blender (map2 (\<lambda>s e. [s, e]) pattern (tl pattern @ [last pattern]))
        = Inr (map (\<lambda>c. [c]) pattern)"
proof -
  obtain x xs where p: "pattern = x # xs"
    using assms by (cases pattern) auto
  have len: "length (tl pattern @ [last pattern]) = length pattern"
    using p by simp
  have nth: "(tl pattern @ [last pattern]) ! i =
      (if Suc i < length pattern then pattern ! Suc i else pattern ! i)"
    if "i < length pattern" for i
  proof (cases "Suc i < length pattern")
    case True
    then show ?thesis using p by (simp add: nth_append)
  next
    case False
    with that have "i = length xs" using p by simp
    then show ?thesis using p by (simp add: nth_append last_conv_nth)
  qed
  have fb: "pattern1_from_blender pattern = Inr [pattern, tl pattern @ [last pattern]]"
    using p by (simp add: pattern1_from_blender_def py_last_def)
  show ?thesis
    using fb len nth pattern1_to_blender_pairs [of pattern "tl pattern @ [last pattern]"]
    by simp
qed

theorem pattern_pairing_witness:
  "pattern1_from_blender [2, 5, 5 :: int] = Inr [[2, 5, 5], [5, 5, 5]]
   \<and> pattern1_to_blender [[2, 5], [5, 5], [5, 5 :: int]] = Inr [[2], [5], [5]]"
  using pattern_pairing [of "[2, 5, 5 :: int]"] by simp

text \<open>
  Claim C9 as stated fails: for \<open>[2, 5, 5]\<close> the result of
  \<open>pattern1_from_blender\<close> is the two columns \<open>[[2, 5, 5], [5, 5, 5]]\<close>, not three
  pairs, and \<open>pattern1_to_blender\<close> applied to it directly gives two 1-tuples.
\<close>

theorem pattern_pairs_counterexample:
  "pattern1_from_blender [2, 5, 5 :: int] \<noteq> Inr [[2, 5], [5, 5], [5, 5]]
   \<and> bindE (pattern1_from_blender [2, 5, 5 :: int]) pattern1_to_blender = Inr [[2], [5]]"
  by (simp add: pattern1_from_blender_def py_last_def bindE_def)

section \<open>Properties of the curve merge\<close>

lemma bindE_Inl: "bindE (Inl e) f = Inl e"
  by (simp add: bindE_def)

lemma bindE_Inr: "bindE (Inr a) f = f a"
  by (simp add: bindE_def)

lemma bindE_Inr_iff: "bindE m f = Inr y \<longleftrightarrow> (\<exists>a. m = Inr a \<and> f a = Inr y)"
  by (cases m) (simp_all add: bindE_def)

lemma py_last_nonempty: "xs \<noteq> [] \<Longrightarrow> py_last xs = Inr (last xs)"
  by (cases xs) (simp_all add: py_last_def)

lemma py_nth_first: "xs \<noteq> [] \<Longrightarrow> py_nth xs 0 = Inr (xs ! 0)"
  by (simp add: py_nth_def)

lemma dict_set_fresh: "k \<notin> fst ` set d \<Longrightarrow> dict_set k v d = d @ [(k, v)]"
  by (induction d) auto

lemma foldl_dict_set_distinct:
  "distinct (map fst (acc @ ks)) \<Longrightarrow>
   foldl (\<lambda>d kf. dict_set (fst kf) (snd kf) d) acc ks = acc @ ks"
proof (induction ks arbitrary: acc)
  case Nil
  then show ?case by simp
next
  case (Cons kf ks)
  have fresh: "fst kf \<notin> fst ` set acc"
    using Cons.prems by auto
  have "distinct (map fst ((acc @ [kf]) @ ks))"
    using Cons.prems by simp
  then have "foldl (\<lambda>d kf. dict_set (fst kf) (snd kf) d) (acc @ [kf]) ks = (acc @ [kf]) @ ks"
    by (rule Cons.IH)
  then show ?case
    using fresh by (simp add: dict_set_fresh)
qed

lemma dict_of_distinct: "distinct (map fst ks) \<Longrightarrow> dict_of ks = ks"
  using foldl_dict_set_distinct [of "[]" ks] by (simp add: dict_of_def)

lemma py_getitem_key: "k \<in> fst ` set d \<Longrightarrow> \<exists>v. py_getitem d k = Inr v"
  by (cases "map_of d k") (auto simp: py_getitem_def map_of_eq_None_iff)

lemma find_in_set: "find P xs = Some k \<Longrightarrow> k \<in> set xs"
  by (auto simp: find_Some_iff)

lemma interpolated_ok:
  assumes "dmin \<in> fst ` set d" "dmax \<in> fst ` set d"
  shows "\<exists>v. interpolated lerp d dmin dmax i = Inr v"
proof -
  define less where "less = (case find (\<lambda>k. k < i) (rev (map fst d)) of None \<Rightarrow> dmin | Some k \<Rightarrow> k)"
  define more where "more = (case find (\<lambda>k. k > i) (map fst d) of None \<Rightarrow> dmax | Some k \<Rightarrow> k)"
  have l: "less \<in> fst ` set d"
    unfolding less_def using assms(1) by (auto split: option.splits dest: find_in_set)
  have m: "more \<in> fst ` set d"
    unfolding more_def using assms(2) by (auto split: option.splits dest: find_in_set)
  obtain a b where "py_getitem d less = Inr a" "py_getitem d more = Inr b"
    using py_getitem_key [OF l] py_getitem_key [OF m] by auto
  then show ?thesis
    unfolding interpolated_def less_def [symmetric] more_def [symmetric]
    by (simp add: bindE_def Let_def)
qed

lemma merged_keyframe_absent:
  "i \<notin> fst ` set cd \<Longrightarrow> i \<notin> fst ` set od \<Longrightarrow>
   merged_keyframe add lerp cd cmin cmax od omin omax i = Inr None"
  by (simp add: merged_keyframe_def map_of_eq_None_iff [THEN iffD2])

lemma merged_keyframe_present:
  assumes "cmin \<in> fst ` set cd" "cmax \<in> fst ` set cd"
    and "omin \<in> fst ` set od" "omax \<in> fst ` set od"
    and "i \<in> fst ` set cd \<or> i \<in> fst ` set od"
  shows "\<exists>v. merged_keyframe add lerp cd cmin cmax od omin omax i = Inr (Some (i, v))"
proof -
  obtain a where a: "(case map_of cd i of None \<Rightarrow> interpolated lerp cd cmin cmax i | Some a \<Rightarrow> Inr a) = Inr a"
    using interpolated_ok [OF assms(1,2), of lerp i] by (cases "map_of cd i") auto
  obtain b where b: "(case map_of od i of None \<Rightarrow> interpolated lerp od omin omax i | Some b \<Rightarrow> Inr b) = Inr b"
    using interpolated_ok [OF assms(3,4), of lerp i] by (cases "map_of od i") auto
  have "\<not> (map_of cd i = None \<and> map_of od i = None)"
    using assms(5) by (auto simp: map_of_eq_None_iff)
  then show ?thesis
    unfolding merged_keyframe_def using a b
    by (cases "map_of cd i"; cases "map_of od i") (auto simp: bindE_def)
qed

lemma collect_frames_filter:
  assumes "\<And>i. i \<in> set is \<Longrightarrow> P i \<Longrightarrow> \<exists>v. f i = Inr (Some (i, v))"
    and "\<And>i. i \<in> set is \<Longrightarrow> \<not> P i \<Longrightarrow> f i = Inr None"
  shows "\<exists>r. collect_frames f is = Inr r \<and> map fst r = filter P is"
  using assms
proof (induction "is")
  case Nil
  then show ?case by simp
next
  case (Cons i "is")
  from Cons obtain r where r: "collect_frames f is = Inr r" "map fst r = filter P is"
    by auto
  show ?case
  proof (cases "P i")
    case True
    then obtain v where "f i = Inr (Some (i, v))"
      using Cons.prems(1) [of i] by auto
    then show ?thesis using r True by simp
  next
    case False
    then have "f i = Inr None"
      using Cons.prems(2) [of i] by auto
    then show ?thesis using r False by simp
  qed
qed

lemma sorted_wrt_less_le_last:
  "sorted_wrt (<) (xs :: int list) \<Longrightarrow> x \<in> set xs \<Longrightarrow> x \<le> last xs"
  by (induction xs) (auto simp: less_imp_le)

lemma wf_frames_distinct: "wf_frames fs \<Longrightarrow> distinct fs"
  by (simp add: wf_frames_def strict_sorted_iff)

lemma set_filter_upto:
  assumes "\<And>x. x \<in> A \<Longrightarrow> 0 \<le> x \<and> x \<le> m"
  shows "set (filter (\<lambda>i. i \<in> A) [0 .. m]) = A"
  using assms by auto

lemma sorted_wrt_filter_upto: "sorted_wrt (<) (filter P [0 .. (m::int)])"
  by (rule sorted_wrt_filter) (simp add: strict_sorted_iff)

lemma add_keyframes_frames:
  assumes c: "curve \<noteq> []" and ot: "other \<noteq> []"
    and wc: "wf_frames (map fst curve)" and wo: "wf_frames (map fst other)"
  shows "\<exists>r. add_keyframes add lerp identity curve other = Inr r
           \<and> set (map fst r) = set (map fst curve) \<union> set (map fst other)
           \<and> sorted_wrt (<) (map fst r)"
proof -
  let ?m = "max (get_end_frame curve) (get_end_frame other)"
  let ?A = "set (map fst curve) \<union> set (map fst other)"
  let ?f = "merged_keyframe add lerp curve (fst (curve ! 0)) (fst (last curve))
              other (fst (other ! 0)) (fst (last other))"
  have dc: "dict_of curve = curve" and dd: "dict_of other = other"
    using wc wo by (simp_all add: dict_of_distinct wf_frames_distinct)
  have ends: "get_end_frame curve = last (map fst curve)" "get_end_frame other = last (map fst other)"
    using c ot by (simp_all add: get_end_frame_def last_map split: list.splits)
  have keys: "fst (curve ! 0) \<in> fst ` set curve" "fst (last curve) \<in> fst ` set curve"
    "fst (other ! 0) \<in> fst ` set other" "fst (last other) \<in> fst ` set other"
    using c ot by (auto simp: nth_mem)
  have bound: "0 \<le> x \<and> x \<le> ?m" if "x \<in> ?A" for x
  proof -
    have "0 \<le> x"
      using that wc wo by (auto simp: wf_frames_def list_all_iff)
    moreover have "x \<le> ?m"
    proof (cases "x \<in> set (map fst curve)")
      case True
      then have "x \<le> last (map fst curve)"
        using wc by (simp only: wf_frames_def sorted_wrt_less_le_last)
      then show ?thesis using ends by simp
    next
      case False
      then have "x \<in> set (map fst other)" using that by simp
      then have "x \<le> last (map fst other)"
        using wo by (simp only: wf_frames_def sorted_wrt_less_le_last)
      then show ?thesis using ends by simp
    qed
    ultimately show ?thesis by simp
  qed
  have "\<exists>r. collect_frames ?f [0 .. ?m] = Inr r \<and> map fst r = filter (\<lambda>i. i \<in> ?A) [0 .. ?m]"
  proof (rule collect_frames_filter)
    fix i assume "i \<in> ?A"
    then show "\<exists>v. ?f i = Inr (Some (i, v))"
      using merged_keyframe_present [OF keys, of i add lerp] by auto
  next
    fix i assume "i \<notin> ?A"
    then show "?f i = Inr None"
      by (auto intro: merged_keyframe_absent)
  qed
  then obtain r where r: "collect_frames ?f [0 .. ?m] = Inr r"
    "map fst r = filter (\<lambda>i. i \<in> ?A) [0 .. ?m]"
    by blast
  have run: "add_keyframes add lerp identity curve other = Inr r"
    using c ot r(1) dc dd
    by (simp add: add_keyframes_def bindE_def py_nth_first py_last_nonempty Let_def)
  have "set (map fst r) = ?A"
    unfolding r(2) using bound by (rule set_filter_upto)
  moreover have "sorted_wrt (<) (map fst r)"
    unfolding r(2) by (rule sorted_wrt_filter_upto)
  ultimately show ?thesis using run by blast
qed


lemma add_curve_location:
  "add_curve slerp (LocationCurve ks) (LocationCurve os) =
     bindE (add_keyframes vadd vlerp Vector0 ks os) (\<lambda>r. Inr (LocationCurve r))"
  by simp

lemma add_curve_rotation:
  "add_curve slerp (RotationCurve ks) (RotationCurve os) =
     bindE (add_keyframes qmul slerp Quaternion1 ks os) (\<lambda>r. Inr (RotationCurve r))"
  by simp

text \<open>
  Claim C2, for the kinds \<open>add_curve\<close> accepts. For two non-empty curves of the same
  kind, \<open>LOCATION\<close> or \<open>ROTATION\<close>, whose frames satisfy the data model's invariant,
  \<open>add_curve\<close> returns a curve of that kind whose frames are exactly the frames of
  the two curves, in increasing order: every frame with a keyframe in either curve is
  there, and no other frame is.
\<close>

theorem add_curve_frame_union:
  assumes "curve_type curve = curve_type other" and "curve_type curve \<noteq> PATTERN_HAND"
    and "curve_frames curve \<noteq> []" and "curve_frames other \<noteq> []"
    and "wf_frames (curve_frames curve)" and "wf_frames (curve_frames other)"
  shows "\<exists>merged. add_curve slerp curve other = Inr merged
           \<and> curve_type merged = curve_type curve
           \<and> set (curve_frames merged) = set (curve_frames curve) \<union> set (curve_frames other)
           \<and> sorted_wrt (<) (curve_frames merged)"
proof (cases curve)
  case (LocationCurve ks)
  then obtain os where o: "other = LocationCurve os"
    using assms(1) by (cases other) simp_all
  obtain r where "add_keyframes vadd vlerp Vector0 ks os = Inr r"
    "set (map fst r) = set (map fst ks) \<union> set (map fst os)" "sorted_wrt (<) (map fst r)"
    using add_keyframes_frames [of ks os vadd vlerp Vector0] assms(3-6) LocationCurve o by auto
  then show ?thesis
    unfolding LocationCurve o add_curve_location by (simp add: bindE_def)
next
  case (RotationCurve ks)
  then obtain os where o: "other = RotationCurve os"
    using assms(1) by (cases other) simp_all
  obtain r where "add_keyframes qmul slerp Quaternion1 ks os = Inr r"
    "set (map fst r) = set (map fst ks) \<union> set (map fst os)" "sorted_wrt (<) (map fst r)"
    using add_keyframes_frames [of ks os qmul slerp Quaternion1] assms(3-6) RotationCurve o by auto
  then show ?thesis
    unfolding RotationCurve o add_curve_rotation by (simp add: bindE_def)
next
  case (PatternCurve ks)
  then show ?thesis using assms(2) by simp
qed

theorem add_curve_frame_union_witness:
  "\<exists>merged.
     add_curve (\<lambda>p q t. p)
       (LocationCurve [(0, Vector 1 0 0), (5, Vector 2 0 0), (10, Vector 3 0 0)])
       (LocationCurve [(0, Vector 0 1 0), (3, Vector 0 2 0), (10, Vector 0 3 0)]) = Inr merged
     \<and> curve_type merged = LOCATION
     \<and> set (curve_frames merged) = {0, 3, 5, 10}
     \<and> sorted_wrt (<) (curve_frames merged)"
proof -
  have "{0, 5, 10} \<union> {0, 3, 10} = {0, 3, 5, 10 :: int}" by auto
  then show ?thesis
    using add_curve_frame_union
      [of "LocationCurve [(0, Vector 1 0 0), (5, Vector 2 0 0), (10, Vector 3 0 0)]"
          "LocationCurve [(0, Vector 0 1 0), (3, Vector 0 2 0), (10, Vector 0 3 0)]"
          "\<lambda>p q t. p"]
    by (simp add: wf_frames_def)
qed

text \<open>
  Claim C2 as stated covers every kind; two non-empty \<open>PATTERN_HAND\<close> curves are
  rejected by \<open>add_curve\<close> and no merged curve is produced.
\<close>

theorem add_curve_pattern_counterexample:
  "add_curve (\<lambda>p q t. p) (PatternCurve [(0, [2, 5])]) (PatternCurve [(3, [5, 5])])
     = Inl (Exception ''Incompatible curve type for addition'')"
  by simp

text \<open>
  Claim C3 at its failing inputs. \<open>add_curve\<close> seeds an empty \<open>curve\<close> but reads
  \<open>other.keyframes[0]\<close> unguarded, so with an empty \<open>other\<close> it raises
  \<open>IndexError\<close>, also when both curves are empty.
\<close>

theorem add_curve_empty_other_raises:
  "add_curve (\<lambda>p q t. p) (LocationCurve [(0, Vector 1 2 3)]) (GMTCurve_new LOCATION) = Inl IndexError
   \<and> add_curve (\<lambda>p q t. p) (RotationCurve [(0, Quaternion 1 0 0 0)]) (GMTCurve_new ROTATION) = Inl IndexError
   \<and> add_curve (\<lambda>p q t. p) (GMTCurve_new LOCATION) (GMTCurve_new LOCATION) = Inl IndexError"
  by (simp add: add_keyframes_def bindE_def py_nth_def py_last_def)

text \<open>
  The merge of the frames 0, 5, 10 with the frames 0, 3, 10, with the interpolated
  values at the frames 3 and 5.
\<close>

lemma add_curve_example:
  "add_curve (\<lambda>p q t. p)
       (LocationCurve [(0, Vector 1 0 0), (5, Vector 2 0 0), (10, Vector 3 0 0)])
       (LocationCurve [(0, Vector 0 1 0), (3, Vector 0 2 0), (10, Vector 0 3 0)])
   = Inr (LocationCurve [(0, Vector 1 1 0), (3, Vector (8/5) 2 0), (5, Vector 2 (16/7) 0), (10, Vector 3 3 0)])"
  by (simp add: add_keyframes_def bindE_def py_nth_def py_last_def dict_of_def get_end_frame_def
      upto.simps merged_keyframe_def interpolated_def py_getitem_def)


lemma collect_frames_total:
  assumes "\<And>i. i \<in> set is \<Longrightarrow> \<exists>y. f i = Inr y"
  shows "\<exists>r. collect_frames f is = Inr r
           \<and> set r = {kf. \<exists>i \<in> set is. f i = Inr (Some kf)}"
  using assms
proof (induction "is")
  case Nil
  then show ?case by simp
next
  case (Cons i "is")
  from Cons obtain r where r: "collect_frames f is = Inr r"
    "set r = {kf. \<exists>i \<in> set is. f i = Inr (Some kf)}"
    by auto
  obtain y where y: "f i = Inr y"
    using Cons.prems [of i] by auto
  show ?case
  proof (cases y)
    case None
    then show ?thesis using r y by auto
  next
    case (Some kf)
    then show ?thesis using r y by auto
  qed
qed

lemma map_of_distinct_member:
  "distinct (map fst d) \<Longrightarrow> (k, v) \<in> set d \<Longrightarrow> map_of d k = Some v"
  by simp

lemma interpolated_seed:
  "0 < i \<Longrightarrow> interpolated lerp [(0, identity)] 0 0 i = Inr identity"
  by (simp add: interpolated_def py_getitem_def)

lemma merged_keyframe_seed:
  assumes "(i, v) \<in> set other" and "distinct (map fst other)" and "0 \<le> i"
  shows "merged_keyframe add lerp [(0, identity)] 0 0 other omin omax i
         = Inr (Some (i, add identity v))"
proof -
  have m: "map_of other i = Some v"
    using assms(1,2) by simp
  show ?thesis
  proof (cases "i = 0")
    case True
    then show ?thesis using m by (simp add: merged_keyframe_def bindE_def)
  next
    case False
    then have "0 < i" using assms(3) by simp
    then show ?thesis
      using m by (simp add: merged_keyframe_def bindE_def interpolated_seed)
  qed
qed

text \<open>
  What the seeding achieves: merged into an empty curve, a non-empty curve keeps its
  value at each of its frames.
\<close>

lemma add_keyframes_into_empty:
  assumes ot: "other \<noteq> []" and wo: "wf_frames (map fst other)"
  shows "\<exists>r. add_keyframes add lerp identity [] other = Inr r
           \<and> (\<forall>kf \<in> set other. (fst kf, add identity (snd kf)) \<in> set r)"
proof -
  let ?m = "max (get_end_frame [(0, identity)]) (get_end_frame other)"
  let ?f = "merged_keyframe add lerp [(0, identity)] 0 0
              other (fst (other ! 0)) (fst (last other))"
  have dd: "dict_of other = other"
    using wo by (simp add: dict_of_distinct wf_frames_distinct)
  have dseed: "dict_of [(0::int, identity)] = [(0, identity)]"
    by (simp add: dict_of_def)
  have keys: "fst (other ! 0) \<in> fst ` set other" "fst (last other) \<in> fst ` set other"
    using ot by (auto simp: nth_mem)
  have total: "\<exists>y. ?f i = Inr y" for i
  proof (cases "i \<in> fst ` set [(0::int, identity)] \<or> i \<in> fst ` set other")
    case True
    then show ?thesis
      using merged_keyframe_present [of 0 "[(0, identity)]" 0 "fst (other ! 0)" other
          "fst (last other)" i add lerp] keys
      by auto
  next
    case False
    then show ?thesis
      using merged_keyframe_absent [of i "[(0, identity)]" other add lerp 0 0] by auto
  qed
  obtain r where r: "collect_frames ?f [0 .. ?m] = Inr r"
    "set r = {kf. \<exists>i \<in> set [0 .. ?m]. ?f i = Inr (Some kf)}"
    using collect_frames_total [of "[0 .. ?m]" ?f] total by blast
  have run: "add_keyframes add lerp identity [] other = Inr r"
    using ot r(1) dd dseed
    by (simp add: add_keyframes_def bindE_def py_nth_def py_last_nonempty Let_def)
  have "(fst kf, add identity (snd kf)) \<in> set r" if kf: "kf \<in> set other" for kf
  proof -
    have mem: "fst kf \<in> set (map fst other)"
      using kf by simp
    have nonneg: "0 \<le> fst kf"
      using mem wo by (auto simp: wf_frames_def list_all_iff)
    have "fst kf \<le> last (map fst other)"
      using mem wo by (simp only: wf_frames_def sorted_wrt_less_le_last)
    moreover have "get_end_frame other = last (map fst other)"
      using ot by (cases other) (simp_all add: get_end_frame_def last_map)
    ultimately have "fst kf \<le> ?m"
      by simp
    then have inr: "fst kf \<in> set [0 .. ?m]"
      using nonneg by simp
    have "?f (fst kf) = Inr (Some (fst kf, add identity (snd kf)))"
      using merged_keyframe_seed [of "fst kf" "snd kf" other] kf wo nonneg
      by (simp add: wf_frames_distinct)
    then show ?thesis
      unfolding r(2) using inr by blast
  qed
  then show ?thesis using run by blast
qed

lemma vadd_Vector0: "vadd Vector0 v = v"
  by (cases v) (simp add: Vector0_def)

lemma qmul_Quaternion1: "qmul Quaternion1 q = q"
  by (cases q) (simp add: Quaternion1_def)

lemma add_curve_into_empty_location:
  assumes "os \<noteq> []" and "wf_frames (map fst os)"
  shows "\<exists>r. add_curve slerp (GMTCurve_new LOCATION) (LocationCurve os) = Inr (LocationCurve r)
           \<and> set os \<subseteq> set r"
proof -
  obtain r where "add_keyframes vadd vlerp Vector0 [] os = Inr r"
    "\<forall>kf \<in> set os. (fst kf, vadd Vector0 (snd kf)) \<in> set r"
    using add_keyframes_into_empty [OF assms, of vadd vlerp Vector0] by blast
  then show ?thesis
    by (auto simp: bindE_def vadd_Vector0)
qed

lemma add_curve_into_empty_rotation:
  assumes "os \<noteq> []" and "wf_frames (map fst os)"
  shows "\<exists>r. add_curve slerp (GMTCurve_new ROTATION) (RotationCurve os) = Inr (RotationCurve r)
           \<and> set os \<subseteq> set r"
proof -
  obtain r where "add_keyframes qmul slerp Quaternion1 [] os = Inr r"
    "\<forall>kf \<in> set os. (fst kf, qmul Quaternion1 (snd kf)) \<in> set r"
    using add_keyframes_into_empty [OF assms, of qmul slerp Quaternion1] by blast
  then show ?thesis
    by (auto simp: bindE_def qmul_Quaternion1)
qed




















text \<open>
  The merge of that example in full: the center's location is interpolated at frame 2,
  the vector's single location is used at the frames 0 and 4.
\<close>

lemma merge_vector_example:
  "merge_vector (\<lambda>p q t. p)
     (Some \<lparr>location = LocationCurve [(0, Vector 1 2 3), (4, Vector 3 2 1)],
            rotation = RotationCurve [(0, Quaternion 0 1 0 0)]\<rparr>)
     (Some \<lparr>location = LocationCurve [(2, Vector 10 20 30)],
            rotation = RotationCurve [(0, Quaternion 0 0 1 0)]\<rparr>)
     DRAGON_VECTOR False
   = Inr (Some \<lparr>location = LocationCurve [(0, Vector 11 22 33), (2, Vector 12 22 32), (4, Vector 13 22 31)],
                rotation = RotationCurve [(0, Quaternion 0 0 0 1)]\<rparr>,
          Some \<lparr>location = LocationCurve [], rotation = RotationCurve []\<rparr>)"
  by (simp add: merge_vector_def add_keyframes_def bindE_def py_nth_def py_last_def dict_of_def
      get_end_frame_def upto.simps merged_keyframe_def interpolated_def py_getitem_def)


section \<open>Properties of the exported curves\<close>

lemma every_second_co_aux:
  "every_second (concat (map (\<lambda>k. [fst (co k), snd (co k)]) ks)) = map (\<lambda>k. fst (co k)) ks"
  by (induction ks) simp_all

lemma every_second_tl_co_aux:
  "every_second (v # concat (map (\<lambda>k. [fst (co k), snd (co k)]) ks)) = v # map (\<lambda>k. snd (co k)) ks"
  by (induction ks arbitrary: v) simp_all

lemma every_second_co:
  "every_second (foreach_get_co c) = map (\<lambda>k. fst (co k)) (keyframe_points c)"
  by (simp add: foreach_get_co_def every_second_co_aux)

lemma every_second_tl_co:
  "every_second (tl (foreach_get_co c)) = map (\<lambda>k. snd (co k)) (keyframe_points c)"
  by (cases "keyframe_points c") (simp_all add: foreach_get_co_def every_second_tl_co_aux)

lemma length_foreach_get_co: "length (foreach_get_co c) = 2 * length (keyframe_points c)"
  by (simp add: foreach_get_co_def length_concat o_def sum_list_triv)

text \<open>
  The loop with its running offset computes the duplication as described: an
  invariant over the keyframes already passed (\<open>A\<close>, \<open>B\<close>) and those still to come.
\<close>

lemma dup_loop_correct:
  assumes "length vs = length fs" and "length ps = length fs"
    and "length A = i + j" and "length B = i + j" and "length pre = i"
  shows "dup_loop (pre @ ps) [i ..< i + (length fs - 1)] j (A @ fs) (B @ vs)
         = Inr (A @ map fst (constant_duplication (zip fs (zip vs ps))),
                B @ map snd (constant_duplication (zip fs (zip vs ps))))"
  using assms
proof (induction fs arbitrary: vs ps A B i j pre)
  case Nil
  then show ?case by simp
next
  case (Cons f fs)
  obtain v vs' where vs: "vs = v # vs'"
    using Cons.prems(1) by (cases vs) auto
  obtain p ps' where ps: "ps = p # ps'"
    using Cons.prems(2) by (cases ps) auto
  show ?case
  proof (cases fs)
    case Nil
    then show ?thesis using vs ps Cons.prems by simp
  next
    case (Cons f' fs')
    obtain v' vs'' where vs': "vs' = v' # vs''"
      using Cons.prems(1) vs Cons by (cases vs') auto
    obtain p' ps'' where ps': "ps' = p' # ps''"
      using Cons.prems(2) ps Cons by (cases ps') auto
    have upt: "[i ..< i + (length (f # fs) - 1)] = i # [Suc i ..< Suc i + (length fs - 1)]"
      using Cons by (subst upt_rec) simp
    have nth_p: "py_nth (pre @ ps) i = Inr p"
      using Cons.prems(5) ps by (simp add: py_nth_def nth_append)
    have nth_k1: "py_nth (A @ f # fs) (i + j + 1) = Inr f'"
      using Cons.prems(3) Cons by (simp add: py_nth_def nth_append)
    have nth_k: "py_nth (A @ f # fs) (i + j) = Inr f"
      using Cons.prems(3) by (simp add: py_nth_def nth_append)
    have nth_v: "py_nth (B @ vs) (i + j) = Inr v"
      using Cons.prems(4) vs by (simp add: py_nth_def nth_append)
    have lens: "length vs' = length fs" "length ps' = length fs"
      using Cons.prems(1,2) vs ps by simp_all
    show ?thesis
    proof (cases "p \<and> f' - f > 1")
      case True
      have ins_f: "py_insert (i + j + 1) (f' - 1) (A @ f # fs) = (A @ [f, f' - 1]) @ fs"
        using Cons.prems(3) by (simp add: py_insert_def)
      have ins_v: "py_insert (i + j + 1) v (B @ vs) = (B @ [v, v]) @ vs'"
        using Cons.prems(4) vs by (simp add: py_insert_def)
      have IH: "dup_loop ((pre @ [p]) @ ps') [Suc i ..< Suc i + (length fs - 1)] (Suc j)
                  ((A @ [f, f' - 1]) @ fs) ((B @ [v, v]) @ vs')
                = Inr ((A @ [f, f' - 1]) @ map fst (constant_duplication (zip fs (zip vs' ps'))),
                       (B @ [v, v]) @ map snd (constant_duplication (zip fs (zip vs' ps'))))"
        by (rule Cons.IH) (use lens Cons.prems(3,4,5) in simp_all)
      have step: "dup_loop (pre @ ps) [i ..< i + (length (f # fs) - 1)] j (A @ f # fs) (B @ vs)
            = dup_loop (pre @ ps) [Suc i ..< Suc i + (length fs - 1)] (Suc j)
                ((A @ [f, f' - 1]) @ fs) ((B @ [v, v]) @ vs')"
        unfolding upt using True nth_p nth_k1 nth_k nth_v ins_f ins_v
        by (simp add: Let_def)
      show ?thesis
        unfolding step using IH True vs ps Cons vs' ps' by simp
    next
      case False
      have IH: "dup_loop ((pre @ [p]) @ ps') [Suc i ..< Suc i + (length fs - 1)] j
                  ((A @ [f]) @ fs) ((B @ [v]) @ vs')
                = Inr ((A @ [f]) @ map fst (constant_duplication (zip fs (zip vs' ps'))),
                       (B @ [v]) @ map snd (constant_duplication (zip fs (zip vs' ps'))))"
        by (rule Cons.IH) (use lens Cons.prems(3,4,5) in simp_all)
      have step: "dup_loop (pre @ ps) [i ..< i + (length (f # fs) - 1)] j (A @ f # fs) (B @ vs)
            = dup_loop (pre @ ps) [Suc i ..< Suc i + (length fs - 1)] j
                ((A @ [f]) @ fs) ((B @ [v]) @ vs')"
        unfolding upt using False nth_p nth_k1 nth_k vs
        by (auto simp: Let_def)
      show ?thesis
        unfolding step using IH False vs ps Cons vs' ps' by auto
    qed
  qed
qed

lemma dup_loop_spec:
  assumes "length vs = length fs" and "length ps = length fs"
  shows "dup_loop ps [0 ..< length ps - 1] 0 fs vs
         = Inr (map fst (constant_duplication (zip fs (zip vs ps))),
                map snd (constant_duplication (zip fs (zip vs ps))))"
  using dup_loop_correct [of vs fs ps "[]" 0 0 "[]"] assms by simp


lemma pol_loop_Inr:
  "pol_loop fcurves axes pol = Inr r \<Longrightarrow>
   length r = length pol
   \<and> (\<forall>axis \<in> set axes. \<exists>c. fcurves axis = Some c \<and> length (keyframe_points c) = length pol)
   \<and> (\<forall>i < length pol. r ! i =
         (pol ! i \<and> (\<forall>axis \<in> set axes. \<exists>c. fcurves axis = Some c
                        \<and> interpolation (keyframe_points c ! i) = 0)))"
proof (induction axes arbitrary: pol)
  case Nil
  then show ?case by simp
next
  case (Cons axis axes)
  from Cons.prems obtain c where c: "fcurves axis = Some c"
    by (cases "fcurves axis") simp_all
  from Cons.prems c have len: "length pol = length (keyframe_points c)"
    by (auto simp: foreach_get_interpolation_def split: if_splits)
  let ?pol' = "map (\<lambda>(a, b). a \<and> b = 0) (zip pol (map interpolation (keyframe_points c)))"
  from Cons.prems c len have rec: "pol_loop fcurves axes ?pol' = Inr r"
    by (simp add: foreach_get_interpolation_def)
  have len': "length ?pol' = length pol"
    using len by simp
  from Cons.IH [OF rec] len'
  have ih: "length r = length pol"
    "\<forall>a \<in> set axes. \<exists>c. fcurves a = Some c \<and> length (keyframe_points c) = length pol"
    "\<forall>i < length pol. r ! i =
         (?pol' ! i \<and> (\<forall>a \<in> set axes. \<exists>c. fcurves a = Some c
                        \<and> interpolation (keyframe_points c ! i) = 0))"
    by simp_all
  have nth: "?pol' ! i = (pol ! i \<and> interpolation (keyframe_points c ! i) = 0)"
    if "i < length pol" for i
    using that len by simp
  show ?case
    using ih c len nth by auto
qed

lemma axes_co_of_Inr:
  "axes_co_of fcurves axes = Inr ac \<Longrightarrow>
   length ac = length axes
   \<and> (\<forall>k < length axes. \<exists>c. fcurves (axes ! k) = Some c \<and> ac ! k = foreach_get_co c)"
proof (induction axes arbitrary: ac)
  case Nil
  then show ?case by simp
next
  case (Cons axis axes)
  from Cons.prems obtain c where c: "fcurves axis = Some c"
    by (cases "fcurves axis") simp_all
  from Cons.prems c obtain r where r: "axes_co_of fcurves axes = Inr r" "ac = foreach_get_co c # r"
    by (cases "axes_co_of fcurves axes") auto
  from Cons.IH [OF r(1)] show ?case
    using c r(2) by (auto simp: nth_Cons split: nat.splits)
qed

lemma transform_location_length:
  "transform_location bone_props bone_name vals = Inr vs \<Longrightarrow> length vs = length vals"
  by (auto simp: transform_location_def bindE_def py_nth_def Let_def split: option.splits if_splits)

lemma map_raise_length: "map_raise f xs = Inr ys \<Longrightarrow> length ys = length xs"
  by (induction xs arbitrary: ys) (auto split: sum.splits)

lemma transform_rotation_length:
  "transform_rotation tq bone_props bone_name vals = Inr vs \<Longrightarrow> length vs = length vals"
  by (auto simp: transform_rotation_def split: option.splits dest: map_raise_length)

lemma make_curve_Inr:
  assumes "make_curve tq de bp fcurves axes fmt name = Inr curve"
  shows "\<exists>ac vals interp.
           axes_co_of fcurves axes = Inr ac \<and> ac \<noteq> []
           \<and> values_of_axes tq de bp ac name = Inr (vals, interp)
           \<and> (if interp
               then \<exists>pol.
                      pol_loop fcurves axes (replicate (length (ac ! 0) div 2) True) = Inr pol
                      \<and> dup_loop pol [0 ..< length pol - 1] 0 (map py_int (every_second (ac ! 0))) vals
                          = Inr (graph_keyframes curve, curve_values curve)
               else graph_keyframes curve = map py_int (every_second (ac ! 0))
                    \<and> curve_values curve = vals)"
proof -
  obtain ac where ac: "axes_co_of fcurves axes = Inr ac"
    using assms by (cases "axes_co_of fcurves axes") (simp_all add: make_curve_def bindE_Inl)
  have ne: "ac \<noteq> []"
  proof
    assume "ac = []"
    then have "py_nth ac 0 = Inl IndexError" by (simp add: py_nth_def)
    then show False using assms ac by (simp add: make_curve_def bindE_Inl bindE_Inr)
  qed
  then have first: "py_nth ac 0 = Inr (ac ! 0)"
    by (simp add: py_nth_def)
  obtain vals interp where v: "values_of_axes tq de bp ac name = Inr (vals, interp)"
    using assms ac first
    by (cases "values_of_axes tq de bp ac name")
       (simp_all add: make_curve_def bindE_Inl bindE_Inr Let_def, fastforce)
  show ?thesis
  proof (cases interp)
    case False
    then have "curve = \<lparr>curve_format = fmt, graph_keyframes = map py_int (every_second (ac ! 0)),
                       graph_delimiter = - 1, curve_values = vals\<rparr>"
      using assms ac first v by (simp add: make_curve_def bindE_Inl bindE_Inr Let_def)
    then show ?thesis
      using ac ne v False by auto
  next
    case True
    obtain pol where pol: "pol_loop fcurves axes (replicate (length (ac ! 0) div 2) True) = Inr pol"
      using assms ac first v True
      by (cases "pol_loop fcurves axes (replicate (length (ac ! 0) div 2) True)")
         (simp_all add: make_curve_def bindE_Inl bindE_Inr Let_def)
    obtain k' v' where d: "dup_loop pol [0 ..< length pol - 1] 0 (map py_int (every_second (ac ! 0))) vals
            = Inr (k', v')"
      using assms ac first v True pol
      by (cases "dup_loop pol [0 ..< length pol - 1] 0 (map py_int (every_second (ac ! 0))) vals")
         (simp_all add: make_curve_def bindE_Inl bindE_Inr Let_def, fastforce)
    have "curve = \<lparr>curve_format = fmt, graph_keyframes = k', graph_delimiter = - 1, curve_values = v'\<rparr>"
      using assms ac first v True pol d by (simp add: make_curve_def bindE_Inl bindE_Inr Let_def)
    then show ?thesis
      using ac ne v True pol d by auto
  qed
qed

lemma values_of_axes_length:
  assumes "values_of_axes tq de bp ac name = Inr (vals, interp)"
    and "length ac = 3 \<or> length ac = 4"
    and "\<forall>k < length ac. length (every_second (tl (ac ! k))) = n"
  shows "interp \<and> length vals = n"
proof -
  from assms(2) show ?thesis
  proof
    assume l: "length ac = 3"
    let ?src = "map (\<lambda>(x, y, z). Vector x y z)
            (zip (every_second (tl (ac ! 0)))
              (zip (every_second (tl (ac ! 1))) (every_second (tl (ac ! 2)))))"
    have eq: "values_of_axes tq de bp ac name =
        bindE (transform_location bp name ?src) (\<lambda>vs. Inr (map PosValue vs, True))"
      using l by (simp add: values_of_axes_def)
    obtain vs where vs: "transform_location bp name ?src = Inr vs"
      "vals = map PosValue vs" "interp"
      using assms(1) unfolding eq bindE_Inr_iff by auto
    have "length ?src = n"
      using assms(3) l by simp
    then show ?thesis
      using vs transform_location_length [OF vs(1)] by simp
  next
    assume l: "length ac = 4"
    let ?src = "map (\<lambda>(w, x, y, z). Quaternion w x y z)
            (zip (every_second (tl (ac ! 0)))
              (zip (every_second (tl (ac ! 1)))
                (zip (every_second (tl (ac ! 2))) (every_second (tl (ac ! 3))))))"
    have eq: "values_of_axes tq de bp ac name =
        bindE (transform_rotation tq bp name ?src) (\<lambda>vs. Inr (map RotValue vs, True))"
      using l by (simp add: values_of_axes_def)
    obtain vs where vs: "transform_rotation tq bp name ?src = Inr vs"
      "vals = map RotValue vs" "interp"
      using assms(1) unfolding eq bindE_Inr_iff by auto
    have "length ?src = n"
      using assms(3) l by simp
    then show ?thesis
      using vs transform_rotation_length [OF vs(1)] by simp
  qed
qed


lemma values_of_axes_one:
  assumes "length ac = 1" and "values_of_axes tq de bp ac name = Inr (vals, interp)"
  shows "\<not> interp"
  using assms by (auto simp: values_of_axes_def Let_def bindE_Inr_iff)

lemma values_of_axes_single:
  assumes "keyframe_points c \<noteq> []"
  shows "values_of_axes tq de bp [foreach_get_co c] name =
     (let codes = map (\<lambda>k. snd (co k)) (keyframe_points c);
          codes' = (if \<not> de then correct_pattern codes else codes)
      in Inr (map (\<lambda>(s, e). PatValue [py_int s, py_int e])
                (zip codes' (tl codes' @ [last codes'])), False))"
proof -
  let ?codes = "map (\<lambda>k. snd (co k)) (keyframe_points c)"
  let ?codes' = "if \<not> de then correct_pattern ?codes else ?codes"
  have ne: "?codes' \<noteq> []"
    using assms by (simp add: correct_pattern_def)
  have "pattern1_from_blender ?codes' = Inr [?codes', tl ?codes' @ [last ?codes']]"
    using ne py_last_def [of ?codes']
    by (cases ?codes') (simp_all add: pattern1_from_blender_def)
  then show ?thesis
    by (simp add: values_of_axes_def every_second_tl_co Let_def bindE_Inr py_nth_def)
qed

lemma make_curve_single:
  assumes "fcurves axis = Some c" and "keyframe_points c \<noteq> []"
  shows "make_curve tq de bp fcurves [axis] fmt name =
     (let codes = map (\<lambda>k. snd (co k)) (keyframe_points c);
          codes' = (if \<not> de then correct_pattern codes else codes)
      in Inr \<lparr>curve_format = fmt,
              graph_keyframes = map (\<lambda>k. py_int (fst (co k))) (keyframe_points c),
              graph_delimiter = - 1,
              curve_values = map (\<lambda>(s, e). PatValue [py_int s, py_int e])
                               (zip codes' (tl codes' @ [last codes']))\<rparr>)"
proof -
  have ac: "axes_co_of fcurves [axis] = Inr [foreach_get_co c]"
    using assms(1) by simp
  show ?thesis
    unfolding make_curve_def ac bindE_Inr
    using values_of_axes_single [OF assms(2), of tq de bp name]
    by (simp add: py_nth_def bindE_Inr Let_def every_second_co o_def)
qed

lemma shifted_nth:
  assumes "pattern \<noteq> []" and "i < length pattern"
  shows "(tl pattern @ [last pattern]) ! i =
           (if Suc i < length pattern then pattern ! Suc i else pattern ! i)"
proof (cases "Suc i < length pattern")
  case True
  then show ?thesis
    using assms(1) by (cases pattern) (simp_all add: nth_append)
next
  case False
  with assms(2) have "i = length pattern - 1" by simp
  then show ?thesis
    using assms(1) False by (cases pattern) (simp_all add: nth_append last_conv_nth)
qed

text \<open>
  Claim C10. A \<open>PatternHand\<close> curve (one axis) with at least one keyframe is exported
  with one pair of codes a keyframe. Unless the preset is Dragon Engine, a code above 17
  is replaced by 0 and a code of at most 17 is kept, before the codes are paired; for
  Dragon Engine every code is kept. The pair at a keyframe holds its code and the next
  keyframe's code (its own at the last keyframe).
\<close>

theorem make_curve_corrects_pattern:
  assumes "fcurves axis = Some c" and "keyframe_points c \<noteq> []"
  shows "\<exists>curve.
     make_curve tq is_dragon_engine bp fcurves [axis] fmt name = Inr curve
     \<and> length (curve_values curve) = length (keyframe_points c)
     \<and> (\<forall>i < length (keyframe_points c).
          curve_values curve ! i =
            PatValue
              [py_int (let x = snd (co (keyframe_points c ! i))
                       in if is_dragon_engine then x else if x > 17 then 0 else x),
               py_int (let x = snd (co (keyframe_points c !
                                      (if Suc i < length (keyframe_points c) then Suc i else i)))
                       in if is_dragon_engine then x else if x > 17 then 0 else x)])"
proof -
  let ?n = "length (keyframe_points c)"
  let ?codes = "map (\<lambda>k. snd (co k)) (keyframe_points c)"
  let ?fix = "\<lambda>x::real. if is_dragon_engine then x else if x > 17 then 0 else x"
  let ?codes' = "if \<not> is_dragon_engine then correct_pattern ?codes else ?codes"
  let ?vals = "map (\<lambda>(s, e). PatValue [py_int s, py_int e]) (zip ?codes' (tl ?codes' @ [last ?codes']))"
  have eq: "?codes' = map ?fix ?codes"
    by (simp add: correct_pattern_def)
  have ne: "?codes' \<noteq> []" and len: "length ?codes' = ?n"
    using assms(2) by (simp_all add: correct_pattern_def)
  have len2: "length (tl ?codes' @ [last ?codes']) = ?n"
    using ne len by (cases ?codes') simp_all
  have mk: "make_curve tq is_dragon_engine bp fcurves [axis] fmt name =
      Inr \<lparr>curve_format = fmt,
           graph_keyframes = map (\<lambda>k. py_int (fst (co k))) (keyframe_points c),
           graph_delimiter = - 1, curve_values = ?vals\<rparr>"
    using make_curve_single [of fcurves axis c tq is_dragon_engine bp fmt name] assms by (simp add: Let_def)
  have nth: "?vals ! i = PatValue [py_int (?fix (snd (co (keyframe_points c ! i)))),
               py_int (?fix (snd (co (keyframe_points c ! (if Suc i < ?n then Suc i else i)))))]"
    if i: "i < ?n" for i
  proof -
    have a: "?codes' ! i = ?fix (snd (co (keyframe_points c ! i)))"
      unfolding eq using i by simp
    have "(tl ?codes' @ [last ?codes']) ! i = (if Suc i < ?n then ?codes' ! Suc i else ?codes' ! i)"
      using shifted_nth [OF ne, of i] i len by simp
    also have "\<dots> = ?fix (snd (co (keyframe_points c ! (if Suc i < ?n then Suc i else i))))"
      unfolding eq using i by simp
    finally have b: "(tl ?codes' @ [last ?codes']) ! i =
        ?fix (snd (co (keyframe_points c ! (if Suc i < ?n then Suc i else i))))" .
    have "?vals ! i = PatValue [py_int (?codes' ! i), py_int ((tl ?codes' @ [last ?codes']) ! i)]"
      using i len len2 by simp
    then show ?thesis
      unfolding a b .
  qed
  have "length ?vals = ?n"
    using len len2 by simp
  then show ?thesis
    using mk nth by (simp add: Let_def)
qed

lemma values_of_axes_interp:
  assumes "values_of_axes tq de bp ac name = Inr (vals, interp)"
    and "length ac = 3 \<or> length ac = 4"
  shows "interp"
  using assms by (auto simp: values_of_axes_def bindE_Inr_iff)

text \<open>
  Claim C4. Whenever \<open>make_curve\<close> returns a curve for three axes (a position) or
  four axes (a rotation), its keyframes and values are the source keyframes (frames
  truncated to integers, values as transformed) with the duplication applied: after
  each keyframe that is constant-interpolated on every axis and lies more than one
  frame before the next, a keyframe with the same value follows one frame before the
  next. For one axis (\<open>PatternHand\<close>) the frames are the source frames and nothing is
  inserted.
\<close>

theorem make_curve_constant_duplication:
  assumes ret: "make_curve tq de bp fcurves axes fmt name = Inr curve"
  shows "(length axes = 3 \<or> length axes = 4 \<longrightarrow>
           (\<exists>c0 ac vals.
              fcurves (axes ! 0) = Some c0
              \<and> axes_co_of fcurves axes = Inr ac
              \<and> values_of_axes tq de bp ac name = Inr (vals, True)
              \<and> length vals = length (keyframe_points c0)
              \<and> zip (graph_keyframes curve) (curve_values curve) =
                  constant_duplication
                    (zip (map (\<lambda>k. py_int (fst (co k))) (keyframe_points c0))
                      (zip vals
                        (map (\<lambda>i. \<forall>axis \<in> set axes. \<exists>c. fcurves axis = Some c
                                    \<and> interpolation (keyframe_points c ! i) = 0)
                           [0 ..< length (keyframe_points c0)])))
              \<and> length (graph_keyframes curve) = length (curve_values curve)))
       \<and> (length axes = 1 \<longrightarrow>
           (\<exists>c0. fcurves (axes ! 0) = Some c0
              \<and> graph_keyframes curve = map (\<lambda>k. py_int (fst (co k))) (keyframe_points c0)
              \<and> length (curve_values curve) = length (keyframe_points c0)))"
proof -
  obtain ac vals interp where ac: "axes_co_of fcurves axes = Inr ac" and ne: "ac \<noteq> []"
    and v: "values_of_axes tq de bp ac name = Inr (vals, interp)"
    and fin: "if interp
               then \<exists>pol.
                      pol_loop fcurves axes (replicate (length (ac ! 0) div 2) True) = Inr pol
                      \<and> dup_loop pol [0 ..< length pol - 1] 0 (map py_int (every_second (ac ! 0))) vals
                          = Inr (graph_keyframes curve, curve_values curve)
               else graph_keyframes curve = map py_int (every_second (ac ! 0))
                    \<and> curve_values curve = vals"
    using make_curve_Inr [OF ret] by blast
  have lac: "length ac = length axes"
    and each: "\<forall>k < length axes. \<exists>c. fcurves (axes ! k) = Some c \<and> ac ! k = foreach_get_co c"
    using axes_co_of_Inr [OF ac] by simp_all
  have pos: "0 < length axes"
    using ne lac by (cases axes) auto
  then obtain c0 where c0: "fcurves (axes ! 0) = Some c0" "ac ! 0 = foreach_get_co c0"
    using each by blast
  let ?n = "length (keyframe_points c0)"
  let ?frames = "map (\<lambda>k. py_int (fst (co k))) (keyframe_points c0)"
  let ?const = "\<lambda>i. \<forall>axis \<in> set axes. \<exists>c. fcurves axis = Some c
                   \<and> interpolation (keyframe_points c ! i) = 0"
  have frames: "map py_int (every_second (ac ! 0)) = ?frames"
    by (simp add: c0(2) every_second_co)
  have half: "length (ac ! 0) div 2 = ?n"
    by (simp add: c0(2) length_foreach_get_co)
  have long: "\<exists>c0 ac vals.
              fcurves (axes ! 0) = Some c0
              \<and> axes_co_of fcurves axes = Inr ac
              \<and> values_of_axes tq de bp ac name = Inr (vals, True)
              \<and> length vals = length (keyframe_points c0)
              \<and> zip (graph_keyframes curve) (curve_values curve) =
                  constant_duplication
                    (zip (map (\<lambda>k. py_int (fst (co k))) (keyframe_points c0))
                      (zip vals (map ?const [0 ..< length (keyframe_points c0)])))
              \<and> length (graph_keyframes curve) = length (curve_values curve)"
    if l: "length axes = 3 \<or> length axes = 4"
  proof -
    have interp: "interp"
      using values_of_axes_interp [OF v] l lac by simp
    then obtain pol where pol: "pol_loop fcurves axes (replicate ?n True) = Inr pol"
      and dup: "dup_loop pol [0 ..< length pol - 1] 0 ?frames vals
                  = Inr (graph_keyframes curve, curve_values curve)"
      using fin half frames by auto
    have lpol: "length pol = ?n"
      and all_n: "\<forall>axis \<in> set axes. \<exists>c. fcurves axis = Some c \<and> length (keyframe_points c) = ?n"
      and pol_nth: "\<forall>i < ?n. pol ! i = ?const i"
      using pol_loop_Inr [OF pol] by simp_all
    have "length (every_second (tl (ac ! k))) = ?n" if k: "k < length ac" for k
    proof -
      obtain c where c: "fcurves (axes ! k) = Some c" "ac ! k = foreach_get_co c"
        using each k lac by auto
      have "axes ! k \<in> set axes"
        using k lac by simp
      then have "length (keyframe_points c) = ?n"
        using all_n c(1) by auto
      then show ?thesis
        by (simp add: c(2) every_second_tl_co)
    qed
    then have lv: "length vals = ?n"
      using values_of_axes_length [OF v, of ?n] l lac by simp
    have pol_eq: "pol = map ?const [0 ..< ?n]"
      using lpol pol_nth by (intro nth_equalityI) simp_all
    let ?out = "constant_duplication (zip ?frames (zip vals pol))"
    have "dup_loop pol [0 ..< length pol - 1] 0 ?frames vals = Inr (map fst ?out, map snd ?out)"
      using dup_loop_spec [of vals ?frames pol] lv lpol by simp
    then have gk: "graph_keyframes curve = map fst ?out" and cv: "curve_values curve = map snd ?out"
      using dup by simp_all
    have "zip (graph_keyframes curve) (curve_values curve) = ?out"
      unfolding gk cv by (simp add: zip_map_fst_snd)
    moreover have "length (graph_keyframes curve) = length (curve_values curve)"
      unfolding gk cv by simp
    ultimately show ?thesis
      using c0(1) ac v interp lv pol_eq by auto
  qed
  have short: "\<exists>c0. fcurves (axes ! 0) = Some c0
              \<and> graph_keyframes curve = map (\<lambda>k. py_int (fst (co k))) (keyframe_points c0)
              \<and> length (curve_values curve) = length (keyframe_points c0)"
    if l: "length axes = 1"
  proof -
    have "\<not> interp"
      using values_of_axes_one [OF _ v] l lac by simp
    then have gk: "graph_keyframes curve = ?frames" and cv: "curve_values curve = vals"
      using fin frames by simp_all
    have "ac = [foreach_get_co c0]"
      using l lac c0(2) by (cases ac) auto
    then have "values_of_axes tq de bp [foreach_get_co c0] name = Inr (vals, interp)"
      using v by simp
    moreover have "keyframe_points c0 \<noteq> []"
    proof
      assume e: "keyframe_points c0 = []"
      have "ac = [[]]"
        using \<open>ac = [foreach_get_co c0]\<close> e by (simp add: foreach_get_co_def)
      then show False
        using v by (cases de) (simp_all add: values_of_axes_def correct_pattern_def
            pattern1_from_blender_def py_last_def bindE_Inl Let_def)
    qed
    ultimately have "length vals = ?n"
      using values_of_axes_single [of c0 tq de bp name] by (auto simp: Let_def correct_pattern_def)
    then show ?thesis
      using c0(1) gk cv by simp
  qed
  show ?thesis
    using long short by blast
qed

lemma constant_duplication_head:
  "constant_duplication ((f, v, c) # rest) = (f, v) # tl (constant_duplication ((f, v, c) # rest))"
  by (cases rest) auto

lemma constant_duplication_cons:
  "rest \<noteq> [] \<Longrightarrow>
   \<exists>ins. constant_duplication (k # rest) = (fst k, fst (snd k)) # ins @ constant_duplication rest"
  by (cases rest; cases k) auto

text \<open>
  What the described duplication does at one pair of consecutive keyframes: when the
  first is constant-interpolated and the gap exceeds one frame, the output holds the
  first keyframe, then a copy of its value one frame before the second, then the second.
\<close>

lemma constant_duplication_inserts:
  assumes "c" and "f' - f > 1"
  shows "\<exists>out1 out2.
           constant_duplication (pre @ (f, v, c) # (f', v', c') # post)
             = out1 @ (f, v) # (f' - 1, v) # (f', v') # out2"
proof (induction pre)
  case Nil
  have "constant_duplication ((f', v', c') # post)
          = (f', v') # tl (constant_duplication ((f', v', c') # post))"
    by (rule constant_duplication_head)
  then have "constant_duplication ([] @ (f, v, c) # (f', v', c') # post)
          = [] @ (f, v) # (f' - 1, v) # (f', v') # tl (constant_duplication ((f', v', c') # post))"
    using assms by simp
  then show ?case by blast
next
  case (Cons k pre)
  then obtain out1 out2 where o:
    "constant_duplication (pre @ (f, v, c) # (f', v', c') # post)
       = out1 @ (f, v) # (f' - 1, v) # (f', v') # out2"
    by blast
  obtain ins where
    "constant_duplication (k # pre @ (f, v, c) # (f', v', c') # post)
       = (fst k, fst (snd k)) # ins @ constant_duplication (pre @ (f, v, c) # (f', v', c') # post)"
    using constant_duplication_cons [of "pre @ (f, v, c) # (f', v', c') # post" k] by auto
  then have "constant_duplication ((k # pre) @ (f, v, c) # (f', v', c') # post)
       = ((fst k, fst (snd k)) # ins @ out1) @ (f, v) # (f' - 1, v) # (f', v') # out2"
    using o by simp
  then show ?case by blast
qed

theorem make_curve_constant_duplication_witness:
  "\<exists>curve.
     make_curve (\<lambda>m. Quaternion1) False
       (\<lambda>n. if n = ''b'' then Some GMTBlenderBoneProps0 else None)
       (\<lambda>a. if a = ''x''
             then Some \<lparr>keyframe_points = [\<lparr>co = (0, 1), interpolation = 0\<rparr>,
                                           \<lparr>co = (10, 4), interpolation = 0\<rparr>]\<rparr>
             else if a = ''y''
             then Some \<lparr>keyframe_points = [\<lparr>co = (0, 2), interpolation = 0\<rparr>,
                                           \<lparr>co = (10, 5), interpolation = 0\<rparr>]\<rparr>
             else if a = ''z''
             then Some \<lparr>keyframe_points = [\<lparr>co = (0, 3), interpolation = 0\<rparr>,
                                           \<lparr>co = (10, 6), interpolation = 0\<rparr>]\<rparr>
             else None)
       [''x'', ''y'', ''z''] POS_VEC3 ''b'' = Inr curve
     \<and> zip (graph_keyframes curve) (curve_values curve)
         = [(0, PosValue (- 1, 3, 2)), (9, PosValue (- 1, 3, 2)), (10, PosValue (- 4, 6, 5))]"
proof -
  let ?F = "\<lambda>a. if a = ''x''
             then Some \<lparr>keyframe_points = [\<lparr>co = (0, 1), interpolation = 0\<rparr>,
                                           \<lparr>co = (10, 4), interpolation = 0\<rparr>]\<rparr>
             else if a = ''y''
             then Some \<lparr>keyframe_points = [\<lparr>co = (0, 2), interpolation = 0\<rparr>,
                                           \<lparr>co = (10, 5), interpolation = 0\<rparr>]\<rparr>
             else if a = ''z''
             then Some \<lparr>keyframe_points = [\<lparr>co = (0, 3), interpolation = 0\<rparr>,
                                           \<lparr>co = (10, 6), interpolation = 0\<rparr>]\<rparr>
             else None"
  let ?B = "\<lambda>n. if n = ''b'' then Some GMTBlenderBoneProps0 else None"
  have ret: "make_curve (\<lambda>m. Quaternion1) False ?B ?F [''x'', ''y'', ''z''] POS_VEC3 ''b''
      = Inr \<lparr>curve_format = POS_VEC3, graph_keyframes = [0, 9, 10], graph_delimiter = - 1,
             curve_values = [PosValue (- 1, 3, 2), PosValue (- 1, 3, 2), PosValue (- 4, 6, 5)]\<rparr>"
    by (simp add: make_curve_def foreach_get_co_def values_of_axes_def transform_location_def
        get_parent_def GMTBlenderBoneProps0_def to_4x4_def Translation_def Identity3_def
        Vector0_def Quaternion1_def foreach_get_interpolation_def py_nth_def py_insert_def
        py_int_def bindE_def Let_def)
  show ?thesis
    using make_curve_constant_duplication [OF ret] ret by simp
qed

theorem make_curve_corrects_pattern_witness:
  "\<exists>curve.
     make_curve (\<lambda>m. Quaternion1) False (\<lambda>n. None)
       (\<lambda>a. if a = ''left_0''
             then Some \<lparr>keyframe_points = [\<lparr>co = (0, 2), interpolation = 0\<rparr>,
                                           \<lparr>co = (4, 20), interpolation = 0\<rparr>,
                                           \<lparr>co = (8, 17), interpolation = 0\<rparr>]\<rparr>
             else None)
       [''left_0''] PAT1_LEFT_HAND ''b'' = Inr curve
     \<and> graph_keyframes curve = [0, 4, 8]
     \<and> curve_values curve = [PatValue [2, 0], PatValue [0, 17], PatValue [17, 17]]"
  using make_curve_corrects_pattern
    [of "\<lambda>a. if a = ''left_0''
             then Some \<lparr>keyframe_points = [\<lparr>co = (0, 2), interpolation = 0\<rparr>,
                                           \<lparr>co = (4, 20), interpolation = 0\<rparr>,
                                           \<lparr>co = (8, 17), interpolation = 0\<rparr>]\<rparr>
             else None"
        "''left_0''"
        "\<lparr>keyframe_points = [\<lparr>co = (0, 2), interpolation = 0\<rparr>,
                             \<lparr>co = (4, 20), interpolation = 0\<rparr>,
                             \<lparr>co = (8, 17), interpolation = 0\<rparr>]\<rparr>"
        "\<lambda>m. Quaternion1" False "\<lambda>n. None" PAT1_LEFT_HAND "''b''"]
  by (simp add: make_curve_def foreach_get_co_def values_of_axes_def correct_pattern_def
      pattern1_from_blender_def py_last_def py_nth_def py_int_def bindE_def Let_def)

lemma pol_loop_total:
  assumes "\<forall>axis \<in> set axes. \<exists>c. fcurves axis = Some c \<and> length (keyframe_points c) = length pol"
  shows "\<exists>r. pol_loop fcurves axes pol = Inr r \<and> length r = length pol"
  using assms
proof (induction axes arbitrary: pol)
  case Nil
  then show ?case by simp
next
  case (Cons axis axes)
  then obtain c where c: "fcurves axis = Some c" "length (keyframe_points c) = length pol"
    by auto
  let ?pol' = "map (\<lambda>(a, b). a \<and> b = 0) (zip pol (map interpolation (keyframe_points c)))"
  have len: "length ?pol' = length pol"
    using c(2) by simp
  have "\<forall>a \<in> set axes. \<exists>c. fcurves a = Some c \<and> length (keyframe_points c) = length ?pol'"
    using Cons.prems len by simp
  from Cons.IH [OF this] obtain r where "pol_loop fcurves axes ?pol' = Inr r" "length r = length ?pol'"
    by blast
  then show ?case
    using c len by (simp add: foreach_get_interpolation_def)
qed

text \<open>
  A position curve is exported without an error when its bone is in the table and its
  three axes have the same number of keyframes, at least one.
\<close>

lemma make_curve_position_returns:
  assumes x: "fcurves ax = Some cx" and y: "fcurves ay = Some cy" and z: "fcurves az = Some cz"
    and ny: "length (keyframe_points cy) = length (keyframe_points cx)"
    and nz: "length (keyframe_points cz) = length (keyframe_points cx)"
    and ne: "keyframe_points cx \<noteq> []"
    and bone: "bone_props group_name = Some desc"
  shows "\<exists>curve. make_curve tq de bone_props fcurves [ax, ay, az] fmt group_name = Inr curve"
proof -
  let ?n = "length (keyframe_points cx)"
  let ?ac = "[foreach_get_co cx, foreach_get_co cy, foreach_get_co cz]"
  let ?src = "map (\<lambda>(x, y, z). Vector x y z)
                (zip (map (\<lambda>k. snd (co k)) (keyframe_points cx))
                  (zip (map (\<lambda>k. snd (co k)) (keyframe_points cy))
                       (map (\<lambda>k. snd (co k)) (keyframe_points cz))))"
  have ac: "axes_co_of fcurves [ax, ay, az] = Inr ?ac"
    using x y z by simp
  have lsrc: "length ?src = ?n"
    using ny nz by simp
  then have "?src \<noteq> []"
    using ne by (metis length_0_conv)
  then obtain vs where vs: "transform_location bone_props group_name ?src = Inr vs"
    using bone by (cases ?src) (simp_all add: transform_location_def Let_def py_nth_def bindE_Inr)
  have lvs: "length vs = ?n"
    using transform_location_length [OF vs] lsrc by simp
  have v: "values_of_axes tq de bone_props ?ac group_name = Inr (map PosValue vs, True)"
    using vs by (simp add: values_of_axes_def every_second_tl_co bindE_Inr)
  obtain pol where pol: "pol_loop fcurves [ax, ay, az] (replicate ?n True) = Inr pol"
    "length pol = ?n"
    using pol_loop_total [of "[ax, ay, az]" fcurves "replicate ?n True"] x y z ny nz by auto
  have dup: "dup_loop pol [0 ..< length pol - 1] 0
               (map (\<lambda>k. py_int (fst (co k))) (keyframe_points cx)) (map PosValue vs)
             = Inr (map fst (constant_duplication
                       (zip (map (\<lambda>k. py_int (fst (co k))) (keyframe_points cx))
                            (zip (map PosValue vs) pol))),
                    map snd (constant_duplication
                       (zip (map (\<lambda>k. py_int (fst (co k))) (keyframe_points cx))
                            (zip (map PosValue vs) pol))))"
    using dup_loop_spec [of "map PosValue vs" "map (\<lambda>k. py_int (fst (co k))) (keyframe_points cx)" pol]
      lvs pol(2) by simp
  show ?thesis
    unfolding make_curve_def ac bindE_Inr
    using v pol(1) dup
    by (simp add: py_nth_def bindE_Inr Let_def every_second_co o_def length_foreach_get_co
        del: pol_loop.simps)
qed

section \<open>Properties of the bone-space transforms\<close>

lemma mat_mul_adjugate:
  "mat_mul m (adjugate m) = mat_scale (determinant m) Identity3"
  by (cases m) (simp add: Identity3_def algebra_simps)

lemma adjugate_mat_mul:
  "mat_mul (adjugate m) m = mat_scale (determinant m) Identity3"
  by (cases m) (simp add: Identity3_def algebra_simps)

lemma mat_vec_mat_mul: "mat_vec (mat_mul a b) v = mat_vec a (mat_vec b v)"
  by (cases a; cases b; cases v) (simp add: algebra_simps)

lemma mat_mul_scale_right: "mat_mul a (mat_scale s b) = mat_scale s (mat_mul a b)"
  by (cases a; cases b) (simp add: algebra_simps)

lemma mat_mul_scale_left: "mat_mul (mat_scale s a) b = mat_scale s (mat_mul a b)"
  by (cases a; cases b) (simp add: algebra_simps)

lemma mat_scale_scale: "mat_scale s (mat_scale t m) = mat_scale (s * t) m"
  by (cases m) (simp add: algebra_simps)

lemma mat_scale_one: "mat_scale 1 m = m"
  by (cases m) simp

lemma mat_vec_Identity3: "mat_vec Identity3 v = v"
  by (cases v) (simp add: Identity3_def)

lemma mat_mul_Identity3_left: "mat_mul Identity3 m = m"
  by (cases m) (simp add: Identity3_def)

lemma mat_mul_Identity3_right: "mat_mul m Identity3 = m"
  by (cases m) (simp add: Identity3_def)

lemma mat_vec_Vector0: "mat_vec m Vector0 = Vector0"
  by (cases m) (simp add: Vector0_def)

lemma mat_vec_vadd: "mat_vec m (vadd a b) = vadd (mat_vec m a) (mat_vec m b)"
  by (cases m; cases a; cases b) (simp add: algebra_simps)

lemma mat_vec_vneg: "mat_vec m (vneg a) = vneg (mat_vec m a)"
  by (cases m; cases a) (simp add: algebra_simps)

lemma vneg_Vector0: "vneg Vector0 = Vector0"
  by (simp add: Vector0_def)

lemma vadd_Vector0_left: "vadd Vector0 v = v"
  by (cases v) (simp add: Vector0_def)

lemma vadd_Vector0_right: "vadd v Vector0 = v"
  by (cases v) (simp add: Vector0_def)

lemma vadd_cancel1: "vadd a (vadd b (vneg a)) = b"
  by (cases a; cases b) simp

lemma vadd_cancel2: "vadd (vneg a) (vadd b a) = b"
  by (cases a; cases b) simp

lemma head_cancel: "vsub (vadd (vadd (vsub x h) p) h) p = x"
  by (cases x; cases h; cases p) simp

lemma mat_inverted_Identity3: "mat_inverted Identity3 = Inr Identity3"
  by (simp add: mat_inverted_def Identity3_def)

text \<open>
  A matrix that \<open>inverted()\<close> accepts is undone by its inverse, on either side.
\<close>

lemma mat_inverted_right:
  assumes "mat_inverted m = Inr mi"
  shows "mat_vec m (mat_vec mi v) = v"
proof -
  have d: "determinant m \<noteq> 0" and mi: "mi = mat_scale (1 / determinant m) (adjugate m)"
    using assms by (auto simp: mat_inverted_def split: if_splits)
  have "mat_mul m mi = mat_scale (1 / determinant m * determinant m) Identity3"
    unfolding mi by (simp add: mat_mul_scale_right mat_mul_adjugate mat_scale_scale)
  then have "mat_mul m mi = Identity3"
    using d by (simp add: mat_scale_one)
  then show ?thesis
    using mat_vec_mat_mul [of m mi v] by (simp add: mat_vec_Identity3)
qed

lemma mat_inverted_left:
  assumes "mat_inverted m = Inr mi"
  shows "mat_vec mi (mat_vec m v) = v"
proof -
  have d: "determinant m \<noteq> 0" and mi: "mi = mat_scale (1 / determinant m) (adjugate m)"
    using assms by (auto simp: mat_inverted_def split: if_splits)
  have "mat_mul mi m = mat_scale (1 / determinant m * determinant m) Identity3"
    unfolding mi by (simp add: mat_mul_scale_left adjugate_mat_mul mat_scale_scale)
  then have "mat_mul mi m = Identity3"
    using d by (simp add: mat_scale_one)
  then show ?thesis
    using mat_vec_mat_mul [of mi m v] by (simp add: mat_vec_Identity3)
qed

lemma determinant_to_matrix:
  "determinant (to_matrix (Quaternion w x y z)) =
     (1 - 2 * (x * x + y * y + z * z))\<^sup>2 + 4 * (w * w) * (x * x + y * y + z * z)"
  by (simp add: power2_eq_square algebra_simps)

text \<open>
  The matrix of a unit quaternion has determinant one, so its inverse exists.
\<close>

lemma determinant_unit:
  assumes "unit_quaternion q"
  shows "determinant (to_matrix q) = 1"
proof (cases q)
  case (Quaternion w x y z)
  define s where "s = x * x + y * y + z * z"
  have "w * w = 1 - s"
    using assms Quaternion by (simp add: unit_quaternion_def qdot_def s_def)
  moreover have "(1 - 2 * s)\<^sup>2 + 4 * (1 - s) * s = 1"
    by (simp add: power2_eq_square algebra_simps)
  ultimately have "(1 - 2 * s)\<^sup>2 + 4 * (w * w) * s = 1"
    by simp
  then show ?thesis
    unfolding Quaternion determinant_to_matrix s_def .
qed

lemmas affine_simps =
  Translation_def to_4x4_def mat_mul_Identity3_left mat_mul_Identity3_right
  mat_vec_Identity3 mat_vec_Vector0 vadd_Vector0_left vadd_Vector0_right vneg_Vector0
  mat_vec_vadd mat_vec_vneg mat_inverted_Identity3 vadd_cancel1 vadd_cancel2

text \<open>
  The matrix of a quaternion is singular only for \<open>w = 0\<close> and
  \<open>x\<^sup>2 + y\<^sup>2 + z\<^sup>2 = 1/2\<close>; the matrix of the zero quaternion is the identity.
\<close>

lemma determinant_zero_iff:
  "determinant (to_matrix (Quaternion w x y z)) = 0
     \<longleftrightarrow> w = 0 \<and> x * x + y * y + z * z = 1 / 2"
proof -
  define s where "s = x * x + y * y + z * z"
  have s0: "0 \<le> s"
    by (simp add: s_def)
  have d: "determinant (to_matrix (Quaternion w x y z)) = (1 - 2 * s)\<^sup>2 + 4 * (w * w) * s"
    unfolding determinant_to_matrix s_def ..
  have a: "0 \<le> (1 - 2 * s)\<^sup>2" and b: "0 \<le> 4 * (w * w) * s"
    using s0 by simp_all
  have "(1 - 2 * s)\<^sup>2 + 4 * (w * w) * s = 0 \<longleftrightarrow> (1 - 2 * s)\<^sup>2 = 0 \<and> 4 * (w * w) * s = 0"
    using a b by (rule add_nonneg_eq_0_iff)
  also have "\<dots> \<longleftrightarrow> s = 1 / 2 \<and> w = 0"
    by auto
  finally show ?thesis
    unfolding d s_def by auto
qed

text \<open>
  Positions: to the editor and back gives the editor vector in engine coordinates
  whenever the matrix of the bone's rest rotation has an inverse; when it has none,
  the transform to the editor raises.
\<close>

lemma location_roundtrip:
  assumes "invertible_rest_rotation bone_props bone_name"
  shows "bindE (transform_location_to_blender bone_props bone_name vals)
           (transform_location_from_blender bone_props bone_name)
         = Inr (map pos_from_blender vals)"
proof -
  let ?desc = "get_props bone_props bone_name"
  let ?m = "to_matrix (rot ?desc)"
  let ?ph = "case get_parent bone_props ?desc of Some parent \<Rightarrow> head parent | None \<Rightarrow> Vector0"
  obtain mi where mi: "mat_inverted ?m = Inr mi"
    using assms by (simp add: mat_inverted_def invertible_rest_rotation_def)
  have to: "transform_location_to_blender bone_props bone_name vals
      = Inr (map (\<lambda>x. mat_vec mi (vadd (vsub x (head ?desc)) ?ph)) vals)"
    by (simp add: transform_location_to_blender_def Let_def bindE_def mi affine_simps
        mat_inverted_left [OF mi])
  have "transform_location_from_blender bone_props bone_name ys
      = Inr (map (\<lambda>y. pos_from_blender (vsub (vadd (mat_vec ?m y) (head ?desc)) ?ph)) ys)" for ys
    by (simp add: transform_location_from_blender_def Let_def bindE_def mi affine_simps)
  then show ?thesis
    unfolding to by (simp add: bindE_def o_def mat_inverted_right [OF mi] head_cancel)
qed

lemma location_singular_raises:
  assumes "\<not> invertible_rest_rotation bone_props bone_name"
  shows "transform_location_to_blender bone_props bone_name vals = Inl ValueError"
  using assms
  by (simp add: transform_location_to_blender_def Let_def bindE_def affine_simps
      mat_inverted_def invertible_rest_rotation_def)

text \<open>
  Rest rotations of length one, as a rest pose has them, are covered.
\<close>

lemma unit_rest_rotations_nonzero:
  "unit_rest_rotations bone_props bone_name \<Longrightarrow> nonzero_rest_rotations bone_props bone_name"
  by (cases "get_parent bone_props (get_props bone_props bone_name)")
     (simp_all add: unit_rest_rotations_def nonzero_rest_rotations_def Let_def
        unit_quaternion_def nonzero_quaternion_def)

lemma unit_rest_rotations_invertible:
  "unit_rest_rotations bone_props bone_name \<Longrightarrow> invertible_rest_rotation bone_props bone_name"
  using determinant_unit [of "rot (get_props bone_props bone_name)"]
  by (simp add: unit_rest_rotations_def invertible_rest_rotation_def Let_def)

lemma qmul_assoc: "qmul (qmul a b) c = qmul a (qmul b c)"
  by (cases a; cases b; cases c) (simp add: algebra_simps)

lemma qmul_Quaternion1_left: "qmul Quaternion1 q = q"
  by (cases q) (simp add: Quaternion1_def)

lemma qmul_Quaternion1_right: "qmul q Quaternion1 = q"
  by (cases q) (simp add: Quaternion1_def)

text \<open>
  The inverse of a quaternion other than zero is its conjugate over its squared
  length, and cancels it on either side.
\<close>

lemma qmul_conj_scaled_right:
  "qmul (Quaternion w x y z) (Quaternion (s * w) (- (s * x)) (- (s * y)) (- (s * z)))
   = Quaternion (s * (w * w + x * x + y * y + z * z)) 0 0 0"
  by (simp add: algebra_simps)

lemma qmul_conj_scaled_left:
  "qmul (Quaternion (s * w) (- (s * x)) (- (s * y)) (- (s * z))) (Quaternion w x y z)
   = Quaternion (s * (w * w + x * x + y * y + z * z)) 0 0 0"
  by (simp add: algebra_simps)

lemma qinverted_scaled:
  assumes "nonzero_quaternion (Quaternion w x y z)"
  shows "qinverted (Quaternion w x y z) =
     Quaternion (1 / (w * w + x * x + y * y + z * z) * w)
                (- (1 / (w * w + x * x + y * y + z * z) * x))
                (- (1 / (w * w + x * x + y * y + z * z) * y))
                (- (1 / (w * w + x * x + y * y + z * z) * z))"
  using assms by (simp add: nonzero_quaternion_def qinverted_def qdot_def)

lemma qmul_qinverted_right: "nonzero_quaternion q \<Longrightarrow> qmul q (qinverted q) = Quaternion1"
proof (cases q)
  case (Quaternion w x y z)
  assume nz: "nonzero_quaternion q"
  then have n: "w * w + x * x + y * y + z * z \<noteq> 0"
    using Quaternion by (simp add: nonzero_quaternion_def qdot_def)
  show ?thesis
    unfolding Quaternion qinverted_scaled [OF nz [unfolded Quaternion]] qmul_conj_scaled_right
    using n by (simp add: Quaternion1_def)
qed

lemma qmul_qinverted_left: "nonzero_quaternion q \<Longrightarrow> qmul (qinverted q) q = Quaternion1"
proof (cases q)
  case (Quaternion w x y z)
  assume nz: "nonzero_quaternion q"
  then have n: "w * w + x * x + y * y + z * z \<noteq> 0"
    using Quaternion by (simp add: nonzero_quaternion_def qdot_def)
  show ?thesis
    unfolding Quaternion qinverted_scaled [OF nz [unfolded Quaternion]] qmul_conj_scaled_left
    using n by (simp add: Quaternion1_def)
qed

lemma qmul_cancel_right: "nonzero_quaternion q \<Longrightarrow> qmul q (qmul (qinverted q) b) = b"
  using qmul_assoc [of q "qinverted q" b]
  by (simp add: qmul_qinverted_right qmul_Quaternion1_left)

lemma qmul_cancel_left: "nonzero_quaternion q \<Longrightarrow> qmul (qinverted q) (qmul q b) = b"
  using qmul_assoc [of "qinverted q" q b]
  by (simp add: qmul_qinverted_left qmul_Quaternion1_left)

lemma nonzero_Quaternion1: "nonzero_quaternion Quaternion1"
  by (simp add: nonzero_quaternion_def qdot_def Quaternion1_def)

text \<open>
  Rotations: the two pairs of factors cancel around a value, in the order the code
  composes them.
\<close>

lemma rotation_single:
  assumes "nonzero_quaternion r" and "nonzero_quaternion rl" and "nonzero_quaternion p"
  shows "qmul (qmul (qmul (qinverted p) r)
                    (qmul (qmul (qmul (qinverted r) p) x)
                          (qmul (qmul (qinverted rl) (qinverted p)) r)))
              (qmul (qmul (qinverted r) p) rl)
         = x"
  using assms
  by (simp add: qmul_assoc qmul_cancel_right qmul_cancel_left qmul_qinverted_left
      qmul_Quaternion1_right)

lemma rotation_roundtrip:
  assumes "nonzero_rest_rotations bone_props bone_name"
  shows "transform_rotation_from_blender bone_props bone_name
           (transform_rotation_to_blender bone_props bone_name vals)
         = map rot_from_blender vals"
proof -
  let ?desc = "get_props bone_props bone_name"
  let ?p = "case get_parent bone_props ?desc of Some parent \<Rightarrow> rot_local parent | None \<Rightarrow> Quaternion1"
  have r: "nonzero_quaternion (rot ?desc)" and rl: "nonzero_quaternion (rot_local ?desc)"
    using assms by (simp_all add: nonzero_rest_rotations_def Let_def)
  have p: "nonzero_quaternion ?p"
    using assms by (cases "get_parent bone_props ?desc")
      (simp_all add: nonzero_rest_rotations_def Let_def nonzero_Quaternion1)
  show ?thesis
    by (simp add: transform_rotation_from_blender_def transform_rotation_to_blender_def
        Let_def o_def rotation_single [OF r rl p])
qed

text \<open>
  The only quaternion of length zero is the zero quaternion; as a rest rotation it
  turns every rotation into the zero quaternion.
\<close>

lemma zero_quaternion:
  assumes "\<not> nonzero_quaternion q"
  shows "q = Quaternion 0 0 0 0"
proof (cases q)
  case (Quaternion w x y z)
  have "w * w + (x * x + (y * y + z * z)) = 0"
    using assms Quaternion by (simp add: nonzero_quaternion_def qdot_def)
  then have "w * w = 0 \<and> x * x = 0 \<and> y * y = 0 \<and> z * z = 0"
    by (simp add: add_nonneg_eq_0_iff)
  then show ?thesis
    using Quaternion by simp
qed

lemma qmul_zero_left: "qmul (Quaternion 0 0 0 0) q = Quaternion 0 0 0 0"
  by (cases q) simp

lemma qmul_zero_right: "qmul q (Quaternion 0 0 0 0) = Quaternion 0 0 0 0"
  by (cases q) simp

lemma qinverted_zero: "qinverted (Quaternion 0 0 0 0) = Quaternion 0 0 0 0"
  by (simp add: qinverted_def qdot_def)

lemma rotation_zero:
  assumes "\<not> nonzero_rest_rotations bone_props bone_name"
  shows "transform_rotation_from_blender bone_props bone_name
           (transform_rotation_to_blender bone_props bone_name vals)
         = map (\<lambda>x. (0, 0, 0, 0)) vals"
proof -
  let ?desc = "get_props bone_props bone_name"
  let ?p = "case get_parent bone_props ?desc of Some parent \<Rightarrow> rot_local parent | None \<Rightarrow> Quaternion1"
  have "\<not> nonzero_quaternion (rot ?desc) \<or> \<not> nonzero_quaternion (rot_local ?desc)
        \<or> \<not> nonzero_quaternion ?p"
    using assms by (cases "get_parent bone_props ?desc")
      (auto simp: nonzero_rest_rotations_def Let_def)
  then have "rot ?desc = Quaternion 0 0 0 0 \<or> rot_local ?desc = Quaternion 0 0 0 0
        \<or> ?p = Quaternion 0 0 0 0"
    using zero_quaternion by blast
  then have "qmul (qmul (qmul (qinverted ?p) (rot ?desc))
                    (qmul (qmul (qmul (qinverted (rot ?desc)) ?p) x)
                          (qmul (qmul (qinverted (rot_local ?desc)) (qinverted ?p)) (rot ?desc))))
              (qmul (qmul (qinverted (rot ?desc)) ?p) (rot_local ?desc))
         = Quaternion 0 0 0 0" for x
    by (elim disjE) (simp_all add: qmul_zero_left qmul_zero_right qinverted_zero)
  then show ?thesis
    by (simp add: transform_rotation_from_blender_def transform_rotation_to_blender_def
        Let_def o_def)
qed

lemma pos_from_to_blender: "pos_from_blender (pos_to_blender p) = p"
  by (cases p rule: prod_cases3) simp

lemma rot_from_to_blender: "rot_from_blender (rot_to_blender r) = r"
  by (cases r rule: prod_cases4) simp

text \<open>
  Claim C1, in exact arithmetic, with the two conditions the code needs and what it
  does without them. Whatever the heads and translations, whether or not the bone or
  its parent is in the table:

  \<^item> positions: if the matrix of the bone's \<open>rot\<close> has an inverse, positions converted
    with \<open>pos_to_blender\<close>, transformed to the editor and transformed back are the
    original positions, without an error; otherwise the transform to the editor raises
    \<open>ValueError\<close>;

  \<^item> rotations: if none of the rest rotations read for the bone (its \<open>rot\<close> and
    \<open>rot_local\<close>, its parent's \<open>rot_local\<close>) is the zero quaternion, rotations
    converted with \<open>rot_to_blender\<close>, transformed to the editor and back are the
    original rotations; otherwise every rotation comes back as \<open>(0, 0, 0, 0)\<close>.

  The rest rotations need not have length one. On editor values the composition is
  the plain coordinate conversion.
\<close>

theorem bone_transform_roundtrip:
  "(invertible_rest_rotation bone_props bone_name \<longrightarrow>
      bindE (transform_location_to_blender bone_props bone_name (map pos_to_blender positions))
        (transform_location_from_blender bone_props bone_name)
      = Inr positions
      \<and> bindE (transform_location_to_blender bone_props bone_name vectors)
          (transform_location_from_blender bone_props bone_name)
        = Inr (map pos_from_blender vectors))
   \<and> (\<not> invertible_rest_rotation bone_props bone_name \<longrightarrow>
        transform_location_to_blender bone_props bone_name vectors = Inl ValueError)
   \<and> (nonzero_rest_rotations bone_props bone_name \<longrightarrow>
        transform_rotation_from_blender bone_props bone_name
          (transform_rotation_to_blender bone_props bone_name (map rot_to_blender rotations))
        = rotations
        \<and> transform_rotation_from_blender bone_props bone_name
            (transform_rotation_to_blender bone_props bone_name quaternions)
          = map rot_from_blender quaternions)
   \<and> (\<not> nonzero_rest_rotations bone_props bone_name \<longrightarrow>
        transform_rotation_from_blender bone_props bone_name
          (transform_rotation_to_blender bone_props bone_name quaternions)
        = map (\<lambda>x. (0, 0, 0, 0)) quaternions)"
proof -
  have p: "map pos_from_blender (map pos_to_blender positions) = positions"
    by (simp add: o_def pos_from_to_blender)
  have r: "map rot_from_blender (map rot_to_blender rotations) = rotations"
    by (simp add: o_def rot_from_to_blender)
  show ?thesis
    using location_roundtrip [of bone_props bone_name]
      location_singular_raises [of bone_props bone_name vectors]
      rotation_roundtrip [of bone_props bone_name]
      rotation_zero [of bone_props bone_name quaternions] p r
    by simp
qed

theorem bone_transform_roundtrip_witness:
  "bindE (transform_location_to_blender
            (\<lambda>n. if n = ''b''
                  then Some \<lparr>head = Vector 0 1 0, loc = Vector 1 0 0, rot = Quaternion 0 2 0 0,
                             rot_local = Quaternion 0 0 1 0, parent_name = Some ''a''\<rparr>
                  else if n = ''a''
                  then Some \<lparr>head = Vector 0 0 1, loc = Vector 0 0 0, rot = Quaternion 1 0 0 0,
                             rot_local = Quaternion 1 1 0 0, parent_name = None\<rparr>
                  else None)
            ''b'' (map pos_to_blender [(1, 2, 3)]))
     (transform_location_from_blender
            (\<lambda>n. if n = ''b''
                  then Some \<lparr>head = Vector 0 1 0, loc = Vector 1 0 0, rot = Quaternion 0 2 0 0,
                             rot_local = Quaternion 0 0 1 0, parent_name = Some ''a''\<rparr>
                  else if n = ''a''
                  then Some \<lparr>head = Vector 0 0 1, loc = Vector 0 0 0, rot = Quaternion 1 0 0 0,
                             rot_local = Quaternion 1 1 0 0, parent_name = None\<rparr>
                  else None)
            ''b'')
   = Inr [(1, 2, 3)]
   \<and> transform_rotation_from_blender
        (\<lambda>n. if n = ''b''
              then Some \<lparr>head = Vector 0 1 0, loc = Vector 1 0 0, rot = Quaternion 0 2 0 0,
                         rot_local = Quaternion 0 0 1 0, parent_name = Some ''a''\<rparr>
              else if n = ''a''
              then Some \<lparr>head = Vector 0 0 1, loc = Vector 0 0 0, rot = Quaternion 1 0 0 0,
                         rot_local = Quaternion 1 1 0 0, parent_name = None\<rparr>
              else None)
        ''b''
        (transform_rotation_to_blender
           (\<lambda>n. if n = ''b''
                 then Some \<lparr>head = Vector 0 1 0, loc = Vector 1 0 0, rot = Quaternion 0 2 0 0,
                            rot_local = Quaternion 0 0 1 0, parent_name = Some ''a''\<rparr>
                 else if n = ''a''
                 then Some \<lparr>head = Vector 0 0 1, loc = Vector 0 0 0, rot = Quaternion 1 0 0 0,
                            rot_local = Quaternion 1 1 0 0, parent_name = None\<rparr>
                 else None)
           ''b'' (map rot_to_blender [(0, 0, 0, 1)]))
     = [(0, 0, 0, 1)]"
proof -
  let ?B = "\<lambda>n. if n = ''b''
                  then Some \<lparr>head = Vector 0 1 0, loc = Vector 1 0 0, rot = Quaternion 0 2 0 0,
                             rot_local = Quaternion 0 0 1 0, parent_name = Some ''a''\<rparr>
                  else if n = ''a''
                  then Some \<lparr>head = Vector 0 0 1, loc = Vector 0 0 0, rot = Quaternion 1 0 0 0,
                             rot_local = Quaternion 1 1 0 0, parent_name = None\<rparr>
                  else None"
  have i: "invertible_rest_rotation ?B ''b''"
    by (simp add: invertible_rest_rotation_def get_props_def)
  have n: "nonzero_rest_rotations ?B ''b''"
    by (simp add: nonzero_rest_rotations_def get_props_def get_parent_def
        nonzero_quaternion_def qdot_def)
  show ?thesis
    using bone_transform_roundtrip [of ?B "''b''" "[(1, 2, 3)]" "[]" "[(0, 0, 0, 1)]" "[]"] i n
    by blast
qed

text \<open>
  Claim C1 as stated covers every table. With the zero quaternion as a bone's rest
  rotation the identity rotation \<open>(0, 0, 0, 1)\<close> comes back as \<open>(0, 0, 0, 0)\<close>, off by 1
  in its last component; with the rest rotation \<open>Quaternion 0 (1/2) (1/2) 0\<close>, whose
  matrix is singular, no position is transformed at all.
\<close>

theorem bone_transform_roundtrip_counterexample:
  "transform_rotation_from_blender
     (\<lambda>n. if n = ''b''
           then Some \<lparr>head = Vector 0 0 0, loc = Vector 0 0 0, rot = Quaternion 0 0 0 0,
                      rot_local = Quaternion 1 0 0 0, parent_name = None\<rparr>
           else None)
     ''b''
     (transform_rotation_to_blender
        (\<lambda>n. if n = ''b''
              then Some \<lparr>head = Vector 0 0 0, loc = Vector 0 0 0, rot = Quaternion 0 0 0 0,
                         rot_local = Quaternion 1 0 0 0, parent_name = None\<rparr>
              else None)
        ''b'' (map rot_to_blender [(0, 0, 0, 1)]))
   = [(0, 0, 0, 0)]
   \<and> transform_location_to_blender
       (\<lambda>n. if n = ''b''
             then Some \<lparr>head = Vector 0 0 0, loc = Vector 0 0 0, rot = Quaternion 0 (1 / 2) (1 / 2) 0,
                        rot_local = Quaternion 1 0 0 0, parent_name = None\<rparr>
             else None)
       ''b'' (map pos_to_blender [(1, 2, 3)])
     = Inl ValueError"
  by (simp add: transform_rotation_from_blender_def transform_rotation_to_blender_def
      transform_location_to_blender_def Translation_def to_4x4_def Identity3_def
      mat_inverted_def bindE_def Let_def
      get_props_def get_parent_def qinverted_def qdot_def Quaternion1_def)

end
